theory Spec2Isabelle
  imports Complex_Main "HOL-Library.Sublist"
begin

section \<open>JavaScript values used by the scoring functions\<close>

text \<open>
  The scoring module works on JavaScript numbers and strings. Counts that the caller
  supplies (questions answered, total questions, file size) are integers. Scores and
  times are numbers and are modelled as exact rationals: \<open>0.3\<close> is \<open>3/10\<close>, and the
  rounding of binary floating point is left out. A quotient is the one place where the
  source can leave the finite numbers, so a quotient is a \<open>jsnum\<close>: finite, plus or
  minus infinity, or NaN.
\<close>

datatype jsnum = Fin rat | PosInf | NegInf | NaN

definition js_div :: "int \<Rightarrow> int \<Rightarrow> jsnum" where
  \<comment> \<open>\<open>a / b\<close> on two integers: no exception, a zero divisor gives Infinity or NaN.\<close>
  "js_div a b =
     (if b = 0 then (if a = 0 then NaN else if 0 < a then PosInf else NegInf)
      else Fin (of_int a / of_int b))"

fun js_lt :: "jsnum \<Rightarrow> rat \<Rightarrow> bool" where
  \<comment> \<open>\<open>x < c\<close> for a finite constant \<open>c\<close>; every comparison with NaN is false.\<close>
  "js_lt (Fin x) c = (x < c)"
| "js_lt PosInf c = False"
| "js_lt NegInf c = True"
| "js_lt NaN c = False"

fun js_ge :: "jsnum \<Rightarrow> rat \<Rightarrow> bool" where
  \<comment> \<open>\<open>x >= c\<close> for a finite constant \<open>c\<close>.\<close>
  "js_ge (Fin x) c = (c \<le> x)"
| "js_ge PosInf c = True"
| "js_ge NegInf c = False"
| "js_ge NaN c = False"

fun js_times :: "jsnum \<Rightarrow> rat \<Rightarrow> jsnum" where
  \<comment> \<open>\<open>x * c\<close> for a positive finite constant \<open>c\<close> (the source multiplies by 100).\<close>
  "js_times (Fin x) c = Fin (x * c)"
| "js_times PosInf c = PosInf"
| "js_times NegInf c = NegInf"
| "js_times NaN c = NaN"

definition Math_floor :: "rat \<Rightarrow> rat" where
  "Math_floor x = of_int \<lfloor>x\<rfloor>"

definition Math_round :: "rat \<Rightarrow> rat" where
  \<comment> \<open>\<open>Math.round\<close> rounds to the nearest integer, a half towards plus infinity.\<close>
  "Math_round x = of_int \<lfloor>x + 1 / 2\<rfloor>"

subsection \<open>Strings\<close>

text \<open>
  A string is a list of characters; a \<open>char\<close> stands for a UTF-16 code unit below 256,
  so \<open>length\<close> is the JavaScript \<open>length\<close> for texts in that range.
\<close>

definition toLowerCase_char :: "char \<Rightarrow> char" where
  "toLowerCase_char c =
     (let n = (of_char c :: nat)
      in if (65 \<le> n \<and> n \<le> 90) \<or> (192 \<le> n \<and> n \<le> 214) \<or> (216 \<le> n \<and> n \<le> 222)
         then char_of (n + 32) else c)"

definition toLowerCase :: "string \<Rightarrow> string" where
  "toLowerCase s = map toLowerCase_char s"

fun includes_str :: "string \<Rightarrow> string \<Rightarrow> bool" where
  \<comment> \<open>\<open>s.includes(t)\<close>: \<open>t\<close> occurs in \<open>s\<close> as a contiguous substring.\<close>
  "includes_str [] t = (t = [])"
| "includes_str (c # cs) t = (prefix t (c # cs) \<or> includes_str cs t)"

fun lastIndexOf :: "string \<Rightarrow> char \<Rightarrow> int" where
  \<comment> \<open>\<open>s.lastIndexOf(c)\<close> for a one-character needle; \<open>-1\<close> when it does not occur.\<close>
  "lastIndexOf [] c = -1"
| "lastIndexOf (d # ds) c =
     (let i = lastIndexOf ds c
      in if 0 \<le> i then i + 1 else if d = c then 0 else -1)"

definition substring :: "string \<Rightarrow> int \<Rightarrow> string" where
  \<comment> \<open>\<open>s.substring(i)\<close>: a negative start counts as 0.\<close>
  "substring s i = drop (nat (max i 0)) s"

fun split_from :: "string \<Rightarrow> nat \<Rightarrow> string \<Rightarrow> string \<Rightarrow> string list" where
  \<comment> \<open>scanner of \<open>split\<close>: \<open>skip\<close> characters of a separator still to pass, \<open>cur\<close> the
      piece being read (reversed)\<close>
  "split_from sep skip cur [] = [rev cur]"
| "split_from sep skip cur (c # cs) =
     (if 0 < skip then split_from sep (skip - 1) cur cs
      else if prefix sep (c # cs) then rev cur # split_from sep (length sep - 1) [] cs
      else split_from sep 0 (c # cur) cs)"

definition split :: "string \<Rightarrow> string \<Rightarrow> string list" where
  \<comment> \<open>\<open>s.split(sep)\<close> for a string separator: the pieces between the occurrences of
      \<open>sep\<close>, found from left to right without overlap.\<close>
  "split s sep = (if sep = [] then map (\<lambda>c. [c]) s else split_from sep 0 [] s)"

fun split_class_from :: "char list \<Rightarrow> bool \<Rightarrow> string \<Rightarrow> string \<Rightarrow> string list" where
  \<comment> \<open>scanner of \<open>split\<close> on one or more characters of a class: \<open>insep\<close> says that the
      previous character belonged to the separator\<close>
  "split_class_from cl insep cur [] = [rev cur]"
| "split_class_from cl insep cur (c # cs) =
     (if c \<in> set cl
      then (if insep then split_class_from cl True cur cs
            else rev cur # split_class_from cl True [] cs)
      else split_class_from cl False (c # cur) cs)"

definition split_class :: "string \<Rightarrow> char list \<Rightarrow> string list" where
  \<comment> \<open>\<open>s.split(/[cl]+/)\<close>\<close>
  "split_class s cl = split_class_from cl False [] s"

definition isWhiteSpace :: "char \<Rightarrow> bool" where
  \<comment> \<open>white space and line terminators below 256: TAB, LF, VT, FF, CR, SP, NBSP\<close>
  "isWhiteSpace c = ((of_char c :: nat) \<in> {9, 10, 11, 12, 13, 32, 160})"

definition trim :: "string \<Rightarrow> string" where
  "trim s = rev (dropWhile isWhiteSpace (rev (dropWhile isWhiteSpace s)))"

subsection \<open>Regular expressions\<close>

text \<open>
  The patterns of the source use literals, character classes, \<open>+\<close>, \<open>?\<close> and a fixed
  count on a class, sequence, alternative, the word boundary \<open>\b\<close> and the end anchor.
  A position is the character before the cursor, if any, and the text after it; the
  matcher returns the positions where a match that starts at the given one can end.
\<close>

datatype rx = Lit string | Cls "char list" | Plus "char list" | Opt "char list"
  | Seq rx rx | Alt rx rx | WordB | EndA

type_synonym pos = "char option \<times> string"

definition digit :: "char list" where
  "digit = ''0123456789''"

definition isWordChar :: "char \<Rightarrow> bool" where
  "isWordChar c =
     (c \<in> set ''abcdefghijklmnopqrstuvwxyzABCDEFGHIJKLMNOPQRSTUVWXYZ0123456789_'')"

fun lit_at :: "string \<Rightarrow> pos \<Rightarrow> pos list" where
  "lit_at [] p = [p]"
| "lit_at (c # cs) (prev, []) = []"
| "lit_at (c # cs) (prev, d # ds) = (if c = d then lit_at cs (Some d, ds) else [])"

fun plus_at :: "char list \<Rightarrow> pos \<Rightarrow> pos list" where
  "plus_at cl (prev, []) = []"
| "plus_at cl (prev, d # ds) =
     (if d \<in> set cl then (Some d, ds) # plus_at cl (Some d, ds) else [])"

fun cls_at :: "char list \<Rightarrow> pos \<Rightarrow> pos list" where
  "cls_at cl (prev, []) = []"
| "cls_at cl (prev, d # ds) = (if d \<in> set cl then [(Some d, ds)] else [])"

fun boundary :: "pos \<Rightarrow> bool" where
  "boundary (prev, rest) =
     ((case prev of None \<Rightarrow> False | Some c \<Rightarrow> isWordChar c)
      \<noteq> (case rest of [] \<Rightarrow> False | d # ds \<Rightarrow> isWordChar d))"

fun rx_at :: "rx \<Rightarrow> pos \<Rightarrow> pos list" where
  "rx_at (Lit s) p = lit_at s p"
| "rx_at (Cls cl) p = cls_at cl p"
| "rx_at (Plus cl) p = plus_at cl p"
| "rx_at (Opt cl) p = cls_at cl p @ [p]"
| "rx_at (Seq a b) p = concat (map (rx_at b) (rx_at a p))"
| "rx_at (Alt a b) p = rx_at a p @ rx_at b p"
| "rx_at WordB p = (if boundary p then [p] else [])"
| "rx_at EndA p = (if snd p = [] then [p] else [])"

fun positions :: "char option \<Rightarrow> string \<Rightarrow> pos list" where
  "positions prev [] = [(prev, [])]"
| "positions prev (c # cs) = (prev, c # cs) # positions (Some c) cs"

definition rx_test :: "rx \<Rightarrow> string \<Rightarrow> bool" where
  \<comment> \<open>\<open>re.test(s)\<close>, and the truth value of \<open>s.match(re)\<close>: a match starts somewhere\<close>
  "rx_test r s = (\<exists>p \<in> set (positions None s). rx_at r p \<noteq> [])"

fun times_rx :: "nat \<Rightarrow> rx \<Rightarrow> rx" where
  \<comment> \<open>\<open>r{n}\<close>\<close>
  "times_rx 0 r = Lit []"
| "times_rx (Suc n) r = Seq r (times_rx n r)"


fun show_nat :: "nat \<Rightarrow> string" where
  \<comment> \<open>the decimal digits of a natural number, as a template literal prints it\<close>
  "show_nat n =
     (if n < 10 then [''0123456789'' ! n]
      else show_nat (n div 10) @ [''0123456789'' ! (n mod 10)])"

declare show_nat.simps [simp del]

definition show_int :: "int \<Rightarrow> string" where
  "show_int i = (if i < 0 then ''-'' @ show_nat (nat (- i)) else show_nat (nat i))"

definition fixed1 :: "rat \<Rightarrow> string" where
  \<comment> \<open>one decimal place of a non-negative number, a tie going to the larger digit\<close>
  "fixed1 x =
     (let n = \<lfloor>x * 10 + 1 / 2\<rfloor> in show_nat (nat (n div 10)) @ ''.'' @ show_nat (nat (n mod 10)))"

fun toFixed1 :: "jsnum \<Rightarrow> string" where
  \<comment> \<open>\<open>x.toFixed(1)\<close> (below \<open>10^21\<close>, where JavaScript keeps the plain decimal form)\<close>
  "toFixed1 (Fin x) = (if x < 0 then ''-'' @ fixed1 (- x) else fixed1 x)"
| "toFixed1 PosInf = ''Infinity''"
| "toFixed1 NegInf = ''-Infinity''"
| "toFixed1 NaN = ''NaN''"

section \<open>The data model of \<open>scoringAlgorithms.ts\<close>\<close>

text \<open>
  \<open>ResumeAnalysis\<close> and \<open>InterviewAnalysis\<close> share the fields \<open>feedback\<close>,
  \<open>strengths\<close> and \<open>improvements\<close>; the scores come on top of them.
\<close>

record Analysis =
  feedback :: string
  strengths :: "string list"
  improvements :: "string list"

record ResumeAnalysis = Analysis +
  atsScore :: int

record InterviewAnalysis = Analysis +
  overallScore :: rat
  bodyLanguageScore :: rat
  grammarScore :: rat
  skillsScore :: rat
  confidenceScore :: rat

text \<open>The argument of \<open>analyzeInterviewPerformance\<close>; \<open>responses\<close> is optional.\<close>

record interviewData =
  questionsAnswered :: int
  totalQuestions :: int
  timeSpentPerQuestion :: "rat list"
  cameraUsed :: bool
  microphoneUsed :: bool
  interviewCompleted :: bool
  selectedRole :: string
  interviewDuration :: rat
  responses :: "string list option"

record ResponseAnalysis =
  qualityScore :: rat
  communicationScore :: rat
  skillsRelevance :: rat
  clarity :: rat
  confidence :: rat

text \<open>
  The function pushes messages on two local arrays while it computes the scores. The
  model threads the pair of arrays, strengths first, through every step.
\<close>

type_synonym messages = "string list \<times> string list"

definition strength :: "string \<Rightarrow> messages \<Rightarrow> messages" where
  \<comment> \<open>\<open>strengths.push(m)\<close>\<close>
  "strength m l = (fst l @ [m], snd l)"

definition improvement :: "string \<Rightarrow> messages \<Rightarrow> messages" where
  \<comment> \<open>\<open>improvements.push(m)\<close>\<close>
  "improvement m l = (fst l, snd l @ [m])"

section \<open>Response analysis\<close>

definition roleKeywordsMap :: "(string \<times> string list) list" where
  "roleKeywordsMap =
    [(''Software Engineer'', [''javascript'', ''python'', ''react'', ''api'', ''database'',
        ''algorithm'', ''framework'', ''debugging'']),
     (''Product Manager'', [''roadmap'', ''stakeholder'', ''metrics'', ''user research'',
        ''agile'', ''sprint'', ''feature'']),
     (''Data Scientist'', [''python'', ''machine learning'', ''statistics'', ''modeling'',
        ''data analysis'', ''visualization'']),
     (''UX Designer'', [''user experience'', ''wireframe'', ''prototype'', ''usability'',
        ''user research'', ''design thinking'']),
     (''Sales Representative'', [''revenue'', ''pipeline'', ''prospecting'', ''closing'',
        ''relationship'', ''quota'', ''crm'']),
     (''Marketing Manager'', [''campaign'', ''roi'', ''conversion'', ''analytics'', ''brand'',
        ''digital marketing'']),
     (''Business Analyst'', [''requirements'', ''process improvement'', ''stakeholder'',
        ''documentation'', ''analysis'']),
     (''DevOps Engineer'', [''aws'', ''docker'', ''kubernetes'', ''ci/cd'', ''infrastructure'',
        ''automation'', ''monitoring''])]"

definition getRoleKeywords :: "string \<Rightarrow> string list" where
  \<comment> \<open>\<open>roleKeywordsMap[role] || []\<close>, for a role that is a key of the table or no
      property of the object at all\<close>
  "getRoleKeywords role = (case map_of roleKeywordsMap role of Some ks \<Rightarrow> ks | None \<Rightarrow> [])"

definition keywordHits :: "string \<Rightarrow> string \<Rightarrow> nat" where
  \<comment> \<open>how many keywords of the role occur in the response, both in lower case\<close>
  "keywordHits role response =
     length (filter (\<lambda>keyword. includes_str (toLowerCase response) (toLowerCase keyword))
       (getRoleKeywords role))"

definition evidence_rx :: rx where
  \<comment> \<open>\<open>/\d+%|\$\d+|\d+ years/\<close>\<close>
  "evidence_rx =
     Alt (Seq (Plus digit) (Lit ''%''))
       (Alt (Seq (Lit ''$'') (Plus digit)) (Seq (Plus digit) (Lit '' years'')))"

text \<open>
  The body of the \<open>forEach\<close> of \<open>analyzeResponseContent\<close> has five blocks, and each
  updates some of the five running values. Each block is a function on the record of the
  running values.
\<close>

definition contentLength :: "string \<Rightarrow> ResponseAnalysis \<Rightarrow> ResponseAnalysis" where
  \<comment> \<open>quality based on length and depth\<close>
  "contentLength response a =
     (let words = filter (\<lambda>word. 0 < length word) (split (toLowerCase response) '' '')
      in if length words < 10 then a\<lparr>qualityScore := max (qualityScore a - 2) 0\<rparr>
         else if 50 < length words then a\<lparr>qualityScore := min (qualityScore a + 1) 10\<rparr>
         else a)"

definition contentEvidence :: "string \<Rightarrow> ResponseAnalysis \<Rightarrow> ResponseAnalysis" where
  \<comment> \<open>specific examples and metrics\<close>
  "contentEvidence response a =
     (if includes_str response ''example'' \<or> includes_str response ''specifically''
         \<or> rx_test evidence_rx response
      then a\<lparr>qualityScore := min (qualityScore a + 3 / 2) 10,
             skillsRelevance := min (skillsRelevance a + 1) 10\<rparr>
      else a)"

definition contentSentences :: "string \<Rightarrow> ResponseAnalysis \<Rightarrow> ResponseAnalysis" where
  \<comment> \<open>communication clarity\<close>
  "contentSentences response a =
     (let sentences = filter (\<lambda>s. 0 < length (trim s)) (split_class response ''.!?'')
      in if 2 < length sentences
         then a\<lparr>communicationScore := min (communicationScore a + 1 / 2) 10,
                clarity := min (clarity a + 1 / 2) 10\<rparr>
         else a)"

definition contentConfidence :: "string \<Rightarrow> ResponseAnalysis \<Rightarrow> ResponseAnalysis" where
  \<comment> \<open>confidence indicators\<close>
  "contentConfidence response a =
     (if includes_str response ''I successfully'' \<or> includes_str response ''I achieved''
         \<or> includes_str response ''I led''
      then a\<lparr>confidence := min (confidence a + 1) 10\<rparr>
      else a)"

definition contentKeywords :: "string \<Rightarrow> string \<Rightarrow> ResponseAnalysis \<Rightarrow> ResponseAnalysis" where
  \<comment> \<open>role-specific keywords\<close>
  "contentKeywords role response a =
     (let keywordMatches = keywordHits role response
      in if 0 < keywordMatches
         then a\<lparr>skillsRelevance := min (skillsRelevance a + of_nat keywordMatches * (1 / 2)) 10\<rparr>
         else a)"

definition responseContent :: "string \<Rightarrow> ResponseAnalysis \<Rightarrow> string \<Rightarrow> ResponseAnalysis" where
  \<comment> \<open>one round of the \<open>forEach\<close>: the five blocks in the order of the source\<close>
  "responseContent role a response =
     contentKeywords role response
       (contentConfidence response
         (contentSentences response
           (contentEvidence response
             (contentLength response a))))"

definition round1 :: "rat \<Rightarrow> rat" where
  \<comment> \<open>\<open>Math.round(x * 10) / 10\<close>\<close>
  "round1 x = Math_round (x * 10) / 10"

definition analyzeResponseContent :: "string list \<Rightarrow> string \<Rightarrow> ResponseAnalysis" where
  "analyzeResponseContent rs role =
     (if length rs = 0
      then \<lparr>qualityScore = 0, communicationScore = 0, skillsRelevance = 0, clarity = 0,
            confidence = 0\<rparr>
      else
        (let a = foldl (responseContent role)
                   \<lparr>qualityScore = 5, communicationScore = 5, skillsRelevance = 5, clarity = 5,
                    confidence = 5\<rparr> rs
         in \<lparr>qualityScore = round1 (qualityScore a),
             communicationScore = round1 (communicationScore a),
             skillsRelevance = round1 (skillsRelevance a),
             clarity = round1 (clarity a),
             confidence = round1 (confidence a)\<rparr>))"

record GrammarIssues =
  fillerWords :: nat
  incompleteThoughts :: nat
  grammarErrors :: nat

definition fillerPatterns :: "string list" where
  "fillerPatterns = [''um'', ''uh'', ''like'', ''you know'', ''actually'', ''basically'']"

definition agreement_rx :: rx where
  \<comment> \<open>\<open>/\bi is\b|\byou was\b|\bthey was\b/\<close>\<close>
  "agreement_rx =
     Alt (Seq WordB (Seq (Lit ''i is'') WordB))
       (Alt (Seq WordB (Seq (Lit ''you was'') WordB)) (Seq WordB (Seq (Lit ''they was'') WordB)))"

definition grammarAndSpeech :: "GrammarIssues \<Rightarrow> string \<Rightarrow> GrammarIssues" where
  \<comment> \<open>the body of the \<open>forEach\<close> of \<open>analyzeGrammarAndSpeech\<close>; \<open>split\<close> returns at
      least one piece, so the count of matches is a natural number\<close>
  "grammarAndSpeech g response =
     (let g = foldl (\<lambda>g filler.
                  g\<lparr>fillerWords := fillerWords g + (length (split (toLowerCase response) filler) - 1)\<rparr>)
                g fillerPatterns;
          sentences = split_class response ''.!?'';
          g = foldl (\<lambda>g sentence.
                  if 10 < length (trim sentence) \<and> \<not> rx_test (Seq (Cls ''.!?'') EndA) (trim sentence)
                  then g\<lparr>incompleteThoughts := incompleteThoughts g + 1\<rparr> else g)
                g sentences
      in if includes_str response ''was were'' \<or> includes_str response ''is are''
            \<or> rx_test agreement_rx response
         then g\<lparr>grammarErrors := grammarErrors g + 1\<rparr> else g)"

definition analyzeGrammarAndSpeech :: "string list \<Rightarrow> GrammarIssues" where
  "analyzeGrammarAndSpeech rs =
     foldl grammarAndSpeech \<lparr>fillerWords = 0, incompleteThoughts = 0, grammarErrors = 0\<rparr> rs"

record SkillsDemonstration =
  technicalAccuracy :: rat
  industryKnowledge :: rat
  problemSolving :: rat
  specificExamples :: nat
  overallCompetency :: rat

definition examples_rx :: rx where
  \<comment> \<open>\<open>/\d+%|\$\d+|\d+ years|\d+ people|\d+ projects/\<close>\<close>
  "examples_rx =
     Alt (Seq (Plus digit) (Lit ''%''))
       (Alt (Seq (Lit ''$'') (Plus digit))
         (Alt (Seq (Plus digit) (Lit '' years''))
           (Alt (Seq (Plus digit) (Lit '' people'')) (Seq (Plus digit) (Lit '' projects'')))))"

definition skillsDemonstration ::
  "string \<Rightarrow> SkillsDemonstration \<Rightarrow> string \<Rightarrow> SkillsDemonstration" where
  \<comment> \<open>the body of the \<open>forEach\<close> of \<open>analyzeSkillsDemonstration\<close>; the field
      \<open>overallCompetency\<close> is not touched inside the loop\<close>
  "skillsDemonstration role k response =
     (let technicalTerms = keywordHits role response;
          k = (if 0 < technicalTerms
               then k\<lparr>technicalAccuracy := min (technicalAccuracy k + of_nat technicalTerms * (1 / 2)) 10,
                      industryKnowledge := min (industryKnowledge k + of_nat technicalTerms * (3 / 10)) 10\<rparr>
               else k);
          k = (if includes_str response ''problem'' \<or> includes_str response ''challenge''
                  \<or> includes_str response ''solution'' \<or> includes_str response ''approach''
               then k\<lparr>problemSolving := min (problemSolving k + 1) 10\<rparr>
               else k)
      in if rx_test examples_rx response
         then k\<lparr>specificExamples := specificExamples k + 1\<rparr> else k)"

definition analyzeSkillsDemonstration :: "string list \<Rightarrow> string \<Rightarrow> SkillsDemonstration" where
  "analyzeSkillsDemonstration rs role =
     (let k = foldl (skillsDemonstration role)
                \<lparr>technicalAccuracy = 3, industryKnowledge = 3, problemSolving = 3,
                 specificExamples = 0, overallCompetency = 0\<rparr> rs;
          overall = (technicalAccuracy k + industryKnowledge k + problemSolving k) / 3
      in \<lparr>technicalAccuracy = round1 (technicalAccuracy k),
          industryKnowledge = round1 (industryKnowledge k),
          problemSolving = round1 (problemSolving k),
          specificExamples = specificExamples k,
          overallCompetency = round1 overall\<rparr>)"


section \<open>\<open>analyzeInterviewPerformance\<close>\<close>

text \<open>
  The function is one long body. Each definition below is one stretch of it, named after
  the score it works on; it takes the score and the two message arrays as they stand and
  returns them updated.
\<close>

definition average :: "rat list \<Rightarrow> rat" where
  \<comment> \<open>\<open>avgTimePerQuestion\<close>: the mean, and 0 for an empty list\<close>
  "average ts = (if 0 < length ts then foldl (+) 0 ts / of_nat (length ts) else 0)"

subsection \<open>Body language\<close>

definition bodyLanguageBand :: "int \<Rightarrow> jsnum \<Rightarrow> messages \<Rightarrow> rat \<times> messages" where
  \<comment> \<open>the value the completion rate gives the score, with the camera on\<close>
  "bodyLanguageBand answered completionRate l =
     (if answered = 0
      then (0, improvement ''CRITICAL: No responses despite camera - shows complete disengagement'' l)
      else if js_lt completionRate (3 / 10)
      then (2, improvement ''SEVERE: Answered <30% questions - appears uninterested or unprepared'' l)
      else if js_lt completionRate (5 / 10)
      then (5, improvement ''POOR: <50% completion suggests nervousness or lack of preparation'' l)
      else if js_lt completionRate (7 / 10)
      then (12, improvement ''BELOW AVERAGE: Complete at least 70% to show engagement'' l)
      else if js_lt completionRate (8 / 10)
      then (25, improvement ''AVERAGE: Aim for 80%+ completion for professional impression'' l)
      else if js_lt completionRate (95 / 100)
      then (45, strength ''Good visual engagement'' l)
      else (60, strength ''Excellent visual participation'' l))"

definition bodyLanguageTiming :: "int \<Rightarrow> rat list \<Rightarrow> rat \<times> messages \<Rightarrow> rat \<times> messages" where
  \<comment> \<open>rushed and short responses\<close>
  "bodyLanguageTiming answered ts sl =
     (let rushResponses = length (filter (\<lambda>time. time < 8) ts);
          shortResponses = length (filter (\<lambda>time. time < 15) ts)
      in if of_int answered * (4 / 10) < (of_nat rushResponses :: rat)
         then (max (fst sl - 25) 0,
               improvement ''MAJOR: Too many rushed responses (<8s) - shows panic or disinterest'' (snd sl))
         else if of_int answered * (6 / 10) < (of_nat shortResponses :: rat)
         then (max (fst sl - 15) 0,
               improvement ''WARNING: Many brief responses - provide more thoughtful answers'' (snd sl))
         else sl)"

definition bodyLanguageQuality :: "ResponseAnalysis \<Rightarrow> rat \<times> messages \<Rightarrow> rat \<times> messages" where
  \<comment> \<open>the bonus for the quality of the responses\<close>
  "bodyLanguageQuality ra sl =
     (if 7 < qualityScore ra
      then (min (fst sl + 15) 100, strength ''Confident delivery with quality content'' (snd sl))
      else if 5 < qualityScore ra
      then (min (fst sl + 8) 85, snd sl)
      else sl)"

definition bodyLanguage ::
  "interviewData \<Rightarrow> jsnum \<Rightarrow> ResponseAnalysis \<Rightarrow> messages \<Rightarrow> rat \<times> messages" where
  "bodyLanguage d completionRate ra l =
     (if \<not> cameraUsed d
      then (0, improvement ''Modern interviews require video presence''
                 (improvement ''CRITICAL: Camera disabled - cannot assess professional presence'' l))
      else bodyLanguageQuality ra
             (bodyLanguageTiming (questionsAnswered d) (timeSpentPerQuestion d)
               (bodyLanguageBand (questionsAnswered d) completionRate l)))"

subsection \<open>Grammar and speech\<close>

definition grammarFluency :: "string list \<Rightarrow> rat \<times> messages \<Rightarrow> rat \<times> messages" where
  \<comment> \<open>filler words, incomplete thoughts and grammar errors against the number of responses\<close>
  "grammarFluency rs sl =
     (let grammarIssues = analyzeGrammarAndSpeech rs;
          sl = (if of_nat (length rs) * 2 < (of_nat (fillerWords grammarIssues) :: rat)
                then (max (fst sl - 20) 0,
                      improvement ''MAJOR: Excessive filler words (um, uh, like) - practice fluency'' (snd sl))
                else sl);
          sl = (if of_nat (length rs) * (3 / 10) < (of_nat (incompleteThoughts grammarIssues) :: rat)
                then (max (fst sl - 15) 0,
                      improvement ''WARNING: Many incomplete thoughts - practice structured responses'' (snd sl))
                else sl)
      in if of_nat (length rs) * (2 / 10) < (of_nat (grammarErrors grammarIssues) :: rat)
         then (max (fst sl - 10) 0,
               improvement ''NOTE: Grammar issues detected - review professional communication'' (snd sl))
         else sl)"

definition grammarLength :: "rat \<Rightarrow> rat \<times> messages \<Rightarrow> rat \<times> messages" where
  \<comment> \<open>length appropriateness, from the average time\<close>
  "grammarLength avgTimePerQuestion sl =
     (if avgTimePerQuestion < 10
      then (max (fst sl - 25) 0,
            improvement ''SEVERE: Responses too brief to demonstrate communication skills'' (snd sl))
      else if avgTimePerQuestion < 20
      then (max (fst sl - 15) 0,
            improvement ''POOR: Very brief responses - elaborate with examples'' (snd sl))
      else if 120 < avgTimePerQuestion
      then (max (fst sl - 10) 0,
            improvement ''WARNING: Responses too lengthy - practice conciseness'' (snd sl))
      else sl)"

definition grammarCompletion :: "jsnum \<Rightarrow> rat \<times> messages \<Rightarrow> rat \<times> messages" where
  \<comment> \<open>the completion consistency penalty\<close>
  "grammarCompletion completionRate sl =
     (if js_lt completionRate (5 / 10)
      then (max (fst sl * (3 / 10)) 0,
            improvement ''CRITICAL: Low completion severely limits communication assessment'' (snd sl))
      else if js_lt completionRate (7 / 10)
      then (max (fst sl * (6 / 10)) 0,
            improvement ''MAJOR: Inconsistent participation affects communication evaluation'' (snd sl))
      else sl)"

definition grammarClarity :: "ResponseAnalysis \<Rightarrow> rat \<times> messages \<Rightarrow> rat \<times> messages" where
  \<comment> \<open>the messages on clarity; the score stays\<close>
  "grammarClarity ra sl =
     (if 8 < clarity ra then (fst sl, strength ''Excellent clarity and articulation'' (snd sl))
      else if 6 < clarity ra then (fst sl, strength ''Good communication clarity'' (snd sl))
      else (fst sl, improvement ''IMPROVE: Work on clearer articulation and structure'' (snd sl)))"

definition grammar ::
  "interviewData \<Rightarrow> string list \<Rightarrow> jsnum \<Rightarrow> rat \<Rightarrow> ResponseAnalysis \<Rightarrow> messages
     \<Rightarrow> rat \<times> messages" where
  "grammar d rs completionRate avgTimePerQuestion ra l =
     (if \<not> microphoneUsed d
      then (0, improvement ''Professional roles require verbal communication skills''
                 (improvement ''CRITICAL: Microphone disabled - cannot assess communication'' l))
      else if questionsAnswered d = 0
      then (0, improvement ''CRITICAL: No verbal responses detected'' l)
      else grammarClarity ra
             (grammarCompletion completionRate
               (grammarLength avgTimePerQuestion
                 (grammarFluency rs (Math_floor (communicationScore ra * 10), l)))))"

subsection \<open>Skills\<close>

definition skillsCompetency :: "SkillsDemonstration \<Rightarrow> rat \<times> messages \<Rightarrow> rat \<times> messages" where
  \<comment> \<open>the four competency checks\<close>
  "skillsCompetency k sl =
     (let sl = (if technicalAccuracy k < 3
                then (max (fst sl - 30) 0,
                      improvement ''MAJOR: Lacks technical accuracy for role requirements'' (snd sl))
                else sl);
          sl = (if industryKnowledge k < 4
                then (max (fst sl - 20) 0,
                      improvement ''WARNING: Limited industry knowledge demonstrated'' (snd sl))
                else sl);
          sl = (if problemSolving k < 3
                then (max (fst sl - 25) 0,
                      improvement ''CRITICAL: Poor problem-solving approach shown'' (snd sl))
                else sl)
      in if specificExamples k < 2
         then (max (fst sl - 15) 0,
               improvement ''MAJOR: Provide specific examples to demonstrate experience'' (snd sl))
         else sl)"

definition skillsCompletion :: "jsnum \<Rightarrow> rat \<times> messages \<Rightarrow> rat \<times> messages" where
  \<comment> \<open>the completion-based penalties\<close>
  "skillsCompletion completionRate sl =
     (if js_lt completionRate (4 / 10)
      then (max (fst sl * (2 / 10)) 0,
            improvement ''SEVERE: Insufficient responses to evaluate competency'' (snd sl))
      else if js_lt completionRate (6 / 10)
      then (max (fst sl * (5 / 10)) 0,
            improvement ''POOR: Need more responses to showcase abilities'' (snd sl))
      else if js_lt completionRate (8 / 10)
      then (max (fst sl * (7 / 10)) 0,
            improvement ''AVERAGE: Complete more to fully demonstrate skills'' (snd sl))
      else sl)"

definition skillsDepth :: "rat \<Rightarrow> rat \<times> messages \<Rightarrow> rat \<times> messages" where
  \<comment> \<open>the response depth penalty\<close>
  "skillsDepth avgTimePerQuestion sl =
     (if avgTimePerQuestion < 20
      then (max (fst sl - 20) 0,
            improvement ''MAJOR: Responses too brief to show expertise depth'' (snd sl))
      else if avgTimePerQuestion < 30
      then (max (fst sl - 10) 0,
            improvement ''WARNING: Provide more detailed technical examples'' (snd sl))
      else sl)"

definition skillsQuality :: "string \<Rightarrow> SkillsDemonstration \<Rightarrow> rat \<times> messages \<Rightarrow> rat \<times> messages" where
  \<comment> \<open>the messages on competency; the score stays\<close>
  "skillsQuality role k sl =
     (if 8 < overallCompetency k
      then (fst sl, strength (''Excellent '' @ role @ '' expertise demonstrated'') (snd sl))
      else if 6 < overallCompetency k
      then (fst sl, strength ''Good role-specific knowledge shown'' (snd sl))
      else (fst sl, improvement ''IMPROVE: Strengthen role-specific competencies'' (snd sl)))"

definition skills ::
  "interviewData \<Rightarrow> string list \<Rightarrow> jsnum \<Rightarrow> rat \<Rightarrow> ResponseAnalysis \<Rightarrow> messages
     \<Rightarrow> rat \<times> messages" where
  "skills d rs completionRate avgTimePerQuestion ra l =
     (if questionsAnswered d = 0
      then (0, improvement ''Complete interview to demonstrate competencies''
                 (improvement ''CRITICAL: Cannot assess skills without responses'' l))
      else
        (let k = analyzeSkillsDemonstration rs (selectedRole d)
         in skillsQuality (selectedRole d) k
              (skillsDepth avgTimePerQuestion
                (skillsCompletion completionRate
                  (skillsCompetency k (Math_floor (skillsRelevance ra * 10), l))))))"

subsection \<open>Confidence\<close>

definition confidenceCompletion :: "jsnum \<Rightarrow> rat \<times> messages \<Rightarrow> rat \<times> messages" where
  \<comment> \<open>the penalties for poor participation\<close>
  "confidenceCompletion completionRate sl =
     (if js_lt completionRate (3 / 10)
      then (max (fst sl * (1 / 10)) 0,
            improvement ''SEVERE: Very low completion suggests extreme nervousness'' (snd sl))
      else if js_lt completionRate (5 / 10)
      then (max (fst sl * (3 / 10)) 0,
            improvement ''POOR: Low completion indicates confidence issues'' (snd sl))
      else if js_lt completionRate (7 / 10)
      then (max (fst sl * (6 / 10)) 0,
            improvement ''BELOW AVERAGE: Build confidence through better preparation'' (snd sl))
      else sl)"

definition confidenceTiming :: "rat \<Rightarrow> ResponseAnalysis \<Rightarrow> rat \<times> messages \<Rightarrow> rat \<times> messages" where
  \<comment> \<open>the impact of the response times\<close>
  "confidenceTiming avgTimePerQuestion ra sl =
     (if avgTimePerQuestion < 8
      then (max (fst sl - 30) 0,
            improvement ''MAJOR: Rushed responses suggest panic or lack of preparation'' (snd sl))
      else if avgTimePerQuestion < 15
      then (max (fst sl - 15) 0,
            improvement ''WARNING: Brief responses may indicate nervousness'' (snd sl))
      else if 30 \<le> avgTimePerQuestion \<and> 6 < clarity ra
      then (min (fst sl + 10) 100, strength ''Confident, well-structured responses'' (snd sl))
      else sl)"

definition confidenceConsistency :: "bool \<Rightarrow> jsnum \<Rightarrow> rat \<times> messages \<Rightarrow> rat \<times> messages" where
  \<comment> \<open>the consistency bonus\<close>
  "confidenceConsistency completed completionRate sl =
     (if completed \<and> js_ge completionRate (9 / 10)
      then (min (fst sl + 15) 100,
            strength ''Excellent confidence through complete participation'' (snd sl))
      else sl)"

definition confidencePart ::
  "interviewData \<Rightarrow> jsnum \<Rightarrow> rat \<Rightarrow> ResponseAnalysis \<Rightarrow> messages \<Rightarrow> rat \<times> messages" where
  "confidencePart d completionRate avgTimePerQuestion ra l =
     (if \<not> cameraUsed d \<or> \<not> microphoneUsed d
      then (0, improvement ''CRITICAL: Cannot assess confidence without full A/V setup'' l)
      else if questionsAnswered d = 0
      then (0, improvement ''CRITICAL: No engagement indicates lack of confidence'' l)
      else confidenceConsistency (interviewCompleted d) completionRate
             (confidenceTiming avgTimePerQuestion ra
               (confidenceCompletion completionRate (Math_floor (confidence ra * 10), l))))"

subsection \<open>The overall score and the feedback\<close>

definition percent :: "jsnum \<Rightarrow> string" where
  \<comment> \<open>\<open>(completionRate * 100).toFixed(1)\<close>\<close>
  "percent completionRate = toFixed1 (js_times completionRate 100)"

definition interviewFeedback ::
  "interviewData \<Rightarrow> rat \<Rightarrow> jsnum \<Rightarrow> rat \<Rightarrow> string" where
  \<comment> \<open>the overall score is an integer here and is printed as one\<close>
  "interviewFeedback d overall completionRate avgTimePerQuestion =
     (let score = show_int \<lfloor>overall\<rfloor>;
          rate = percent completionRate;
          avg = toFixed1 (Fin avgTimePerQuestion)
      in if overall = 0
         then ''INTERVIEW FAILURE: Complete lack of professional interview readiness. Cannot recommend for any position without fundamental improvements in setup, preparation, and engagement.''
         else if overall < 15
         then ''SEVERE DEFICIENCY ('' @ score @ ''%): Performance indicates fundamental lack of interview skills and professional readiness. Completed '' @ rate @ ''% with '' @ avg @ ''s avg response time. Requires comprehensive interview training, technical setup review, and extensive practice before attempting real interviews.''
         else if overall < 30
         then ''POOR PERFORMANCE ('' @ score @ ''%): Interview demonstrates significant preparation and communication deficiencies. '' @ rate @ ''% completion rate with '' @ avg @ ''s responses indicates either technical difficulties or inadequate preparation. Must address: ''
              @ (if \<not> cameraUsed d then ''video setup,'' else []) @ '' ''
              @ (if \<not> microphoneUsed d then ''audio setup,'' else [])
              @ '' response quality, and professional communication standards.''
         else if overall < 50
         then ''BELOW STANDARD ('' @ score @ ''%): Basic interview participation detected but falls short of professional expectations. '' @ rate @ ''% completion with '' @ avg @ ''s avg responses. While technical setup appears functional, content quality, communication skills, and confidence need substantial improvement. Focus on STAR method, industry knowledge, and structured responses.''
         else if overall < 65
         then ''AVERAGE PERFORMANCE ('' @ score @ ''%): Demonstrates adequate interview skills with '' @ rate @ ''% completion and '' @ avg @ ''s response times. Shows basic professional communication and role understanding. To excel: add specific quantifiable examples, demonstrate deeper technical expertise, improve response structure, and show greater enthusiasm for the role.''
         else if overall < 80
         then ''GOOD PERFORMANCE ('' @ score @ ''%): Strong interview showing with '' @ rate @ ''% completion rate and '' @ avg @ ''s thoughtful responses. Demonstrates professional communication, role competency, and good interview presence. Minor improvements: more specific metrics in examples, stronger technical depth, and enhanced storytelling to differentiate from other candidates.''
         else ''EXCELLENT PERFORMANCE ('' @ score @ ''%): Outstanding interview demonstration with '' @ rate @ ''% completion and '' @ avg @ ''s well-structured responses. Shows exceptional professional presence, clear communication, strong role expertise, and interview confidence. Performance indicates strong candidacy for '' @ selectedRole d @ '' positions. Continue leveraging these strengths in real interviews.'')"

definition responsesOf :: "interviewData \<Rightarrow> string list" where
  \<comment> \<open>the destructuring default \<open>responses = []\<close>\<close>
  "responsesOf d = (case responses d of None \<Rightarrow> [] | Some rs \<Rightarrow> rs)"

definition completionRateOf :: "interviewData \<Rightarrow> jsnum" where
  \<comment> \<open>\<open>completionRate = questionsAnswered / totalQuestions\<close>\<close>
  "completionRateOf d = js_div (questionsAnswered d) (totalQuestions d)"

definition analyzeInterviewPerformance :: "interviewData \<Rightarrow> InterviewAnalysis" where
  "analyzeInterviewPerformance d =
     (let rs = responsesOf d;
          completionRate = completionRateOf d;
          avgTimePerQuestion = average (timeSpentPerQuestion d);
          responseAnalysis = analyzeResponseContent rs (selectedRole d);
          body = bodyLanguage d completionRate responseAnalysis ([], []);
          gram = grammar d rs completionRate avgTimePerQuestion responseAnalysis (snd body);
          skil = skills d rs completionRate avgTimePerQuestion responseAnalysis (snd gram);
          conf = confidencePart d completionRate avgTimePerQuestion responseAnalysis (snd skil);
          overall = Math_round ((fst body + fst gram + fst skil + fst conf) / 4)
      in \<lparr>feedback = interviewFeedback d overall completionRate avgTimePerQuestion,
          strengths = fst (snd conf),
          improvements = snd (snd conf),
          overallScore = overall,
          bodyLanguageScore = fst body,
          grammarScore = fst gram,
          skillsScore = fst skil,
          confidenceScore = fst conf\<rparr>)"

section \<open>\<open>analyzeResume\<close>\<close>

text \<open>
  Of the browser's \<open>File\<close> the function reads the name and the size, and the text that
  \<open>extractTextFromFile\<close> resolves to. The helper only ever resolves, so the
  \<open>catch\<close> around it has nothing to catch; the text is a field of the model's file.
  The size is a whole number of bytes, and \<open>Math.floor(file.size / 6)\<close> is \<open>div\<close>.
\<close>

record File =
  name :: string
  size_file :: int
  textContent :: string

record roleData =
  required :: "string list"
  preferred :: "string list"
  exclusions :: "string list"

definition roleKeywords :: "(string \<times> roleData) list" where
  "roleKeywords =
    [(''Software Engineer'',
       \<lparr>required = [''software'', ''development'', ''programming'', ''code''],
        preferred = [''javascript'', ''python'', ''react'', ''node'', ''git'', ''api'', ''database'',
                     ''frontend'', ''backend'', ''html'', ''css''],
        exclusions = [''microsoft word'', ''data entry'', ''customer service'']\<rparr>),
     (''Product Manager'',
       \<lparr>required = [''product'', ''management'', ''strategy''],
        preferred = [''roadmap'', ''stakeholder'', ''agile'', ''analytics'', ''user'', ''market'',
                     ''launch'', ''metrics''],
        exclusions = [''coding'', ''programming'', ''technical implementation'']\<rparr>),
     (''Data Scientist'',
       \<lparr>required = [''data'', ''analysis'', ''statistics''],
        preferred = [''python'', ''machine learning'', ''sql'', ''modeling'', ''visualization'',
                     ''pandas'', ''numpy'', ''scikit''],
        exclusions = [''basic excel'', ''data entry'', ''administrative'']\<rparr>),
     (''UX Designer'',
       \<lparr>required = [''design'', ''user'', ''experience''],
        preferred = [''wireframe'', ''prototype'', ''usability'', ''research'', ''figma'', ''sketch'',
                     ''adobe'', ''user-centered''],
        exclusions = [''graphic design only'', ''print design'', ''marketing design'']\<rparr>),
     (''Sales Representative'',
       \<lparr>required = [''sales'', ''revenue'', ''client''],
        preferred = [''relationship'', ''target'', ''crm'', ''negotiation'', ''quota'', ''pipeline'',
                     ''prospecting''],
        exclusions = [''cashier'', ''retail associate'', ''customer service only'']\<rparr>),
     (''Marketing Manager'',
       \<lparr>required = [''marketing'', ''campaign'', ''brand''],
        preferred = [''digital'', ''analytics'', ''roi'', ''content'', ''social media'', ''seo'',
                     ''conversion''],
        exclusions = [''sales only'', ''administrative assistant'', ''data entry'']\<rparr>),
     (''Business Analyst'',
       \<lparr>required = [''business'', ''analysis'', ''requirements''],
        preferred = [''process'', ''stakeholder'', ''documentation'', ''workflow'', ''improvement'',
                     ''metrics''],
        exclusions = [''basic admin'', ''data entry'', ''customer service'']\<rparr>),
     (''DevOps Engineer'',
       \<lparr>required = [''devops'', ''infrastructure'', ''deployment''],
        preferred = [''aws'', ''docker'', ''kubernetes'', ''ci/cd'', ''automation'', ''monitoring'',
                     ''cloud'', ''linux''],
        exclusions = [''basic IT support'', ''help desk'', ''desktop support'']\<rparr>)]"

definition roleDataOf :: "string \<Rightarrow> roleData" where
  \<comment> \<open>\<open>roleKeywords[selectedRole] || { required: [], preferred: [], exclusions: [] }\<close>,
      for a role that is a key of the table or no property of the object at all\<close>
  "roleDataOf role =
     (case map_of roleKeywords role of Some r \<Rightarrow> r
      | None \<Rightarrow> \<lparr>required = [], preferred = [], exclusions = []\<rparr>)"

definition found :: "File \<Rightarrow> string list \<Rightarrow> nat" where
  \<comment> \<open>how many of the keywords occur in the lower-cased text or in the lower-cased name\<close>
  "found file keywords =
     length (filter (\<lambda>keyword. includes_str (toLowerCase (textContent file)) keyword
                        \<or> includes_str (toLowerCase (name file)) keyword) keywords)"

definition resumeSize :: "File \<Rightarrow> int \<times> messages \<Rightarrow> int \<times> messages" where
  \<comment> \<open>2. file size, below the limit of 2MB\<close>
  "resumeSize file sl =
     (if size_file file < 30000
      then (max (fst sl - 5) 0,
            improvement ''CRITICAL: File too small - likely missing essential content'' (snd sl))
      else if 50000 \<le> size_file file \<and> size_file file \<le> 500000
      then (fst sl + 2, strength ''Appropriate file size'' (snd sl))
      else sl)"

definition resumeName :: "File \<Rightarrow> int \<times> messages \<Rightarrow> int \<times> messages" where
  \<comment> \<open>3. filename analysis\<close>
  "resumeName file sl =
     (let fileName = toLowerCase (name file);
          sl = (if \<not> includes_str fileName ''resume'' \<and> \<not> includes_str fileName ''cv''
                then (max (fst sl - 3) 0,
                      improvement (''MAJOR: Filename should contain '' @ [CHR 0x27] @ ''resume''
                        @ [CHR 0x27] @ '' or '' @ [CHR 0x27] @ ''CV'' @ [CHR 0x27]
                        @ '' for ATS recognition'') (snd sl))
                else (fst sl + 2, strength ''Professional filename'' (snd sl)))
      in if includes_str fileName ''draft'' \<or> includes_str fileName ''temp''
            \<or> includes_str fileName ''copy''
         then (max (fst sl - 5) 0,
               improvement ''CRITICAL: Remove draft/temp/copy from filename - appears unprofessional'' (snd sl))
         else sl)"

definition resumeRequired :: "File \<Rightarrow> string \<Rightarrow> int \<times> messages \<Rightarrow> int \<times> messages" where
  \<comment> \<open>5. required keywords\<close>
  "resumeRequired file role sl =
     (let rd = roleDataOf role; requiredFound = found file (required rd)
      in if requiredFound = 0
         then (0, improvement (''CRITICAL: Missing ALL required keywords for '' @ role) (snd sl))
         else if requiredFound < length (required rd)
         then (max (fst sl - 15) 0,
               improvement (''MAJOR: Missing '' @ show_nat (length (required rd) - requiredFound)
                            @ '' required keywords'') (snd sl))
         else (fst sl + 10, strength ''Contains required role keywords'' (snd sl)))"

definition resumePreferred :: "File \<Rightarrow> string \<Rightarrow> int \<times> messages \<Rightarrow> int \<times> messages" where
  \<comment> \<open>preferred keywords; for an unknown role the percentage is \<open>0/0\<close>\<close>
  "resumePreferred file role sl =
     (let rd = roleDataOf role;
          preferredPercentage = js_div (int (found file (preferred rd))) (int (length (preferred rd)))
      in if js_ge preferredPercentage (7 / 10)
         then (fst sl + 15, strength ''Excellent keyword optimization'' (snd sl))
         else if js_ge preferredPercentage (5 / 10)
         then (fst sl + 10, strength ''Good keyword presence'' (snd sl))
         else if js_ge preferredPercentage (3 / 10)
         then (fst sl + 5, improvement ''Add more role-specific keywords'' (snd sl))
         else (max (fst sl - 10) 0,
               improvement ''MAJOR: Severely lacking role-specific keywords'' (snd sl)))"

definition resumeExclusions :: "File \<Rightarrow> string \<Rightarrow> int \<times> messages \<Rightarrow> int \<times> messages" where
  \<comment> \<open>exclusion keywords\<close>
  "resumeExclusions file role sl =
     (let exclusionsFound = found file (exclusions (roleDataOf role))
      in if 0 < exclusionsFound
         then (max (fst sl - int exclusionsFound * 5) 0,
               improvement (''WARNING: Contains '' @ show_nat exclusionsFound
                            @ '' irrelevant/negative keywords'') (snd sl))
         else sl)"

definition essentialSections :: "string list" where
  "essentialSections = [''experience'', ''education'', ''skills'', ''contact'']"

definition resumeSections :: "File \<Rightarrow> int \<times> messages \<Rightarrow> int \<times> messages" where
  \<comment> \<open>6. essential sections\<close>
  "resumeSections file sl =
     (let sectionsFound =
            length (filter (\<lambda>section. includes_str (toLowerCase (textContent file)) section
                               \<or> includes_str (toLowerCase (textContent file)) (section @ ''s'')
                               \<or> includes_str (toLowerCase (name file)) section) essentialSections)
      in if sectionsFound < 3
         then (max (fst sl - 20) 0,
               improvement ''CRITICAL: Missing essential resume sections (Experience, Education, Skills, Contact)'' (snd sl))
         else (fst sl + 5, strength ''Contains essential resume sections'' (snd sl)))"

definition resumeLength :: "File \<Rightarrow> int \<times> messages \<Rightarrow> int \<times> messages" where
  \<comment> \<open>7. length, estimated from the size\<close>
  "resumeLength file sl =
     (let estimatedWords = size_file file div 6
      in if estimatedWords < 200
         then (max (fst sl - 15) 0,
               improvement ''CRITICAL: Resume appears too brief - ATS expects 300-600 words minimum'' (snd sl))
         else if 1200 < estimatedWords
         then (max (fst sl - 10) 0,
               improvement ''MAJOR: Resume appears too lengthy - ATS prefers concise 1-2 pages'' (snd sl))
         else if 300 \<le> estimatedWords \<and> estimatedWords \<le> 800
         then (fst sl + 8, strength ''Appropriate resume length'' (snd sl))
         else sl)"

definition phone_rx :: rx where
  \<comment> \<open>\<open>/\d{3}[-.]?\d{3}[-.]?\d{4}/\<close>\<close>
  "phone_rx =
     Seq (times_rx 3 (Cls digit))
       (Seq (Opt ''-.'') (Seq (times_rx 3 (Cls digit)) (Seq (Opt ''-.'') (times_rx 4 (Cls digit)))))"

definition resumeContact :: "File \<Rightarrow> int \<times> messages \<Rightarrow> int \<times> messages" where
  \<comment> \<open>8. contact information; the text is searched as it is, the name in lower case\<close>
  "resumeContact file sl =
     (let hasEmail = (includes_str (textContent file) ''@''
                       \<or> includes_str (toLowerCase (name file)) ''email'');
          hasPhone = (rx_test phone_rx (textContent file)
                       \<or> includes_str (toLowerCase (name file)) ''phone'')
      in if \<not> hasEmail \<and> \<not> hasPhone
         then (max (fst sl - 10) 0, improvement ''CRITICAL: No contact information detected'' (snd sl))
         else if \<not> hasEmail \<or> \<not> hasPhone
         then (max (fst sl - 5) 0, improvement ''MAJOR: Missing email or phone number'' (snd sl))
         else (fst sl + 3, strength ''Contains contact information'' (snd sl)))"

definition resumeFeedback :: "int \<Rightarrow> string" where
  "resumeFeedback score =
     (if score = 0
      then ''REJECTED: Resume fails basic ATS requirements. Cannot proceed to human review.''
      else if score < 20
      then ''CRITICAL FAILURE ('' @ show_int score @ ''%): Resume would be auto-rejected by ATS systems. Major restructuring required.''
      else if score < 40
      then ''POOR ('' @ show_int score @ ''%): Resume unlikely to pass ATS screening. Significant improvements needed in keywords, format, and content.''
      else if score < 60
      then ''BELOW AVERAGE ('' @ show_int score @ ''%): Resume has basic requirements but lacks optimization. May pass simple ATS but will rank low.''
      else if score < 75
      then ''AVERAGE ('' @ show_int score @ ''%): Resume meets most ATS requirements but needs refinement to stand out among candidates.''
      else ''GOOD ('' @ show_int score @ ''%): Resume well-optimized for ATS systems. Should pass most screening filters and reach human reviewers.'')"

definition scoreContent :: "File \<Rightarrow> string \<Rightarrow> int \<times> messages \<Rightarrow> ResumeAnalysis" where
  \<comment> \<open>everything after the size limit: the rest of step 2, steps 3 to 8, the cap at 85
      and the feedback\<close>
  "scoreContent file role sl =
     (let sl = resumeContact file
                 (resumeLength file
                   (resumeSections file
                     (resumeExclusions file role
                       (resumePreferred file role
                         (resumeRequired file role
                           (resumeName file (resumeSize file sl)))))));
          score = min (fst sl) 85
      in \<lparr>feedback = resumeFeedback score, strengths = fst (snd sl),
          improvements = snd (snd sl), atsScore = score\<rparr>)"

definition scoreFromSize :: "File \<Rightarrow> string \<Rightarrow> int \<times> messages \<Rightarrow> ResumeAnalysis" where
  \<comment> \<open>everything after the format check, entered with the score and the messages that the
      format check leaves\<close>
  "scoreFromSize file role sl =
     (if 2000000 < size_file file
      then \<lparr>feedback = ''Resume file size exceeds ATS limits'', strengths = fst (snd sl),
            improvements = snd (improvement ''CRITICAL: File too large - ATS systems reject files over 2MB'' (snd sl)),
            atsScore = 5\<rparr>
      else scoreContent file role sl)"

definition allowedTypes :: "string list" where
  "allowedTypes = [''.pdf'', ''.doc'', ''.docx'']"

definition fileExtension :: "File \<Rightarrow> string" where
  \<comment> \<open>\<open>file.name.toLowerCase().substring(file.name.lastIndexOf('.'))\<close>\<close>
  "fileExtension file = substring (toLowerCase (name file)) (lastIndexOf (name file) CHR ''.'')"

definition analyzeResume :: "File option \<Rightarrow> string \<Rightarrow> ResumeAnalysis" where
  \<comment> \<open>the value the returned promise resolves to; \<open>role\<close> is \<open>selectedRole\<close>\<close>
  "analyzeResume f role =
     (case f of
        None \<Rightarrow>
          \<lparr>feedback = ''CRITICAL: No resume uploaded. ATS systems immediately reject applications without resumes.'',
           strengths = [],
           improvements = [''Upload a resume in PDF, DOC, or DOCX format'', ''Ensure file is under 2MB'',
                           ''Use standard resume format''],
           atsScore = 0\<rparr>
      | Some file \<Rightarrow>
          if fileExtension file \<notin> set allowedTypes
          then \<lparr>feedback = ''Resume format incompatible with ATS systems'',
                strengths = [],
                improvements = [''CRITICAL: File format rejected by ATS - use PDF, DOC, or DOCX only'',
                                ''ATS systems auto-reject non-standard formats''],
                atsScore = 0\<rparr>
          else scoreFromSize file role (3, strength ''Acceptable file format'' ([], [])))"

section \<open>Ranges\<close>

definition inRange10 :: "ResponseAnalysis \<Rightarrow> bool" where
  \<comment> \<open>the five values of a response analysis on the scale from 0 to 10\<close>
  "inRange10 a \<longleftrightarrow>
     0 \<le> qualityScore a \<and> qualityScore a \<le> 10
     \<and> 0 \<le> communicationScore a \<and> communicationScore a \<le> 10
     \<and> 0 \<le> skillsRelevance a \<and> skillsRelevance a \<le> 10
     \<and> 0 \<le> clarity a \<and> clarity a \<le> 10
     \<and> 0 \<le> confidence a \<and> confidence a \<le> 10"

definition percentage :: "rat \<Rightarrow> bool" where
  \<comment> \<open>a score on the scale from 0 to 100\<close>
  "percentage x \<longleftrightarrow> 0 \<le> x \<and> x \<le> 100"

section \<open>Sample inputs\<close>

definition scenarioSession :: "string \<Rightarrow> rat \<Rightarrow> interviewData" where
  \<comment> \<open>seven questions of seven answered, 35 seconds each, camera and microphone on, the
      interview completed, no response texts; the role and the duration are left open\<close>
  "scenarioSession role duration =
     \<lparr>questionsAnswered = 7, totalQuestions = 7,
      timeSpentPerQuestion = [35, 35, 35, 35, 35, 35, 35],
      cameraUsed = True, microphoneUsed = True, interviewCompleted = True,
      selectedRole = role, interviewDuration = duration, responses = None\<rparr>"

definition idleSession :: interviewData where
  \<comment> \<open>seven questions, none answered, camera and microphone on\<close>
  "idleSession =
     \<lparr>questionsAnswered = 0, totalQuestions = 7, timeSpentPerQuestion = [],
      cameraUsed = True, microphoneUsed = True, interviewCompleted = False,
      selectedRole = ''Software Engineer'', interviewDuration = 0, responses = None\<rparr>"

definition mutedSession :: interviewData where
  \<comment> \<open>all questions answered with camera and microphone off\<close>
  "mutedSession =
     \<lparr>questionsAnswered = 7, totalQuestions = 7,
      timeSpentPerQuestion = [35, 35, 35, 35, 35, 35, 35],
      cameraUsed = False, microphoneUsed = False, interviewCompleted = True,
      selectedRole = ''Software Engineer'', interviewDuration = 245000, responses = None\<rparr>"

definition zeroTotal :: interviewData where
  \<comment> \<open>three answers counted against a total of zero questions\<close>
  "zeroTotal =
     \<lparr>questionsAnswered = 3, totalQuestions = 0, timeSpentPerQuestion = [35, 35, 35],
      cameraUsed = True, microphoneUsed = True, interviewCompleted = True,
      selectedRole = ''Software Engineer'', interviewDuration = 105000, responses = None\<rparr>"

definition lowSession :: interviewData where
  \<comment> \<open>one question of seven answered, with its response text\<close>
  "lowSession =
     \<lparr>questionsAnswered = 1, totalQuestions = 7, timeSpentPerQuestion = [35],
      cameraUsed = True, microphoneUsed = True, interviewCompleted = False,
      selectedRole = ''Software Engineer'', interviewDuration = 35000,
      responses = Some [''A. B. C.'']\<rparr>"

definition guardedCompletionRate :: "interviewData \<Rightarrow> jsnum" where
  \<comment> \<open>the completion rate in the specification's words: 0 when \<open>totalQuestions\<close> is 0.
      The source has \<open>completionRateOf\<close> instead.\<close>
  "guardedCompletionRate d = (if totalQuestions d = 0 then Fin 0 else completionRateOf d)"

definition txtResume :: File where
  \<comment> \<open>a resume with the required keywords, three sections, an email address and a
      phone number, saved as \<open>.txt\<close>\<close>
  "txtResume =
     \<lparr>name = ''resume.txt'', size_file = 3000,
      textContent = ''Software development, programming, code. Experience, education, skills. a@b.co 555-123-4567''\<rparr>"

definition formatMessages :: messages where
  \<comment> \<open>the two arrays as the format check leaves them for a rejected extension\<close>
  "formatMessages =
     ([], [''CRITICAL: File format rejected by ATS - use PDF, DOC, or DOCX only'',
           ''ATS systems auto-reject non-standard formats''])"

section \<open>Basic facts\<close>

lemma floor_rat_numeral [simp]:
  "\<lfloor>numeral a / numeral b :: rat\<rfloor> = numeral a div numeral b"
  using floor_divide_of_int_eq [of "numeral a" "numeral b", where ?'a = rat] by simp

lemma floor_rat_one_numeral [simp]: "\<lfloor>1 / numeral b :: rat\<rfloor> = 1 div numeral b"
  using floor_divide_of_int_eq [of 1 "numeral b", where ?'a = rat] by simp

lemma Math_floor_0 [simp]: "Math_floor 0 = 0"
  by (simp add: Math_floor_def)

lemma Math_round_0 [simp]: "Math_round 0 = 0"
  by (simp add: Math_round_def)

lemma round1_0 [simp]: "round1 0 = 0"
  by (simp add: round1_def)

lemma round1_3 [simp]: "round1 3 = 3"
  by (simp add: round1_def Math_round_def)

lemma fst_strength [simp]: "fst (strength m l) = fst l @ [m]"
  by (simp add: strength_def)

lemma snd_strength [simp]: "snd (strength m l) = snd l"
  by (simp add: strength_def)

lemma fst_improvement [simp]: "fst (improvement m l) = fst l"
  by (simp add: improvement_def)

lemma snd_improvement [simp]: "snd (improvement m l) = snd l @ [m]"
  by (simp add: improvement_def)

lemma average_Nil: "average [] = 0"
  by (simp add: average_def)

lemma responsesOf_empty:
  "responsesOf d = [] \<longleftrightarrow> responses d = None \<or> responses d = Some []"
  by (simp add: responsesOf_def split: option.splits)

text \<open>Without response texts the three analyses return their starting values.\<close>

lemma analyzeResponseContent_Nil [simp]:
  "analyzeResponseContent [] role =
     \<lparr>qualityScore = 0, communicationScore = 0, skillsRelevance = 0, clarity = 0, confidence = 0\<rparr>"
  by (simp add: analyzeResponseContent_def)

lemma analyzeGrammarAndSpeech_Nil [simp]:
  "analyzeGrammarAndSpeech [] = \<lparr>fillerWords = 0, incompleteThoughts = 0, grammarErrors = 0\<rparr>"
  by (simp add: analyzeGrammarAndSpeech_def)

lemma analyzeSkillsDemonstration_Nil [simp]:
  "analyzeSkillsDemonstration [] role =
     \<lparr>technicalAccuracy = 3, industryKnowledge = 3, problemSolving = 3, specificExamples = 0,
      overallCompetency = 3\<rparr>"
  by (simp add: analyzeSkillsDemonstration_def)

text \<open>The overall score as the function computes it from the four scores it returns.\<close>

lemma overallScore_eq:
  "overallScore (analyzeInterviewPerformance d) =
     Math_round ((bodyLanguageScore (analyzeInterviewPerformance d)
                  + grammarScore (analyzeInterviewPerformance d)
                  + skillsScore (analyzeInterviewPerformance d)
                  + confidenceScore (analyzeInterviewPerformance d)) / 4)"
  by (simp add: analyzeInterviewPerformance_def Let_def)

subsection \<open>The scenario session\<close>

lemma scen_rs: "responsesOf (scenarioSession role duration) = []"
  by (simp add: scenarioSession_def responsesOf_def)

lemma scen_rate: "completionRateOf (scenarioSession role duration) = Fin 1"
  by (simp add: scenarioSession_def completionRateOf_def js_div_def)

lemma scen_avg: "average (timeSpentPerQuestion (scenarioSession role duration)) = 35"
  by (simp add: scenarioSession_def average_def)

lemma scen_fields:
  "questionsAnswered (scenarioSession role duration) = 7"
  "timeSpentPerQuestion (scenarioSession role duration) = [35, 35, 35, 35, 35, 35, 35]"
  "cameraUsed (scenarioSession role duration)"
  "microphoneUsed (scenarioSession role duration)"
  "interviewCompleted (scenarioSession role duration)"
  "selectedRole (scenarioSession role duration) = role"
  "responses (scenarioSession role duration) = None"
  by (simp_all add: scenarioSession_def)

lemma scen_body:
  "bodyLanguageScore (analyzeInterviewPerformance (scenarioSession role duration)) = 60"
  by (simp add: analyzeInterviewPerformance_def Let_def scen_rs scen_rate scen_avg scen_fields
      bodyLanguage_def bodyLanguageBand_def bodyLanguageTiming_def bodyLanguageQuality_def)

lemma scen_grammar:
  "grammarScore (analyzeInterviewPerformance (scenarioSession role duration)) = 0"
  by (simp add: analyzeInterviewPerformance_def Let_def scen_rs scen_rate scen_avg scen_fields
      grammar_def grammarFluency_def grammarLength_def grammarCompletion_def grammarClarity_def)

lemma scen_skills:
  "skillsScore (analyzeInterviewPerformance (scenarioSession role duration)) = 0"
  by (simp add: analyzeInterviewPerformance_def Let_def scen_rs scen_rate scen_avg scen_fields
      skills_def skillsCompetency_def skillsCompletion_def skillsDepth_def skillsQuality_def)

lemma scen_conf:
  "confidenceScore (analyzeInterviewPerformance (scenarioSession role duration)) = 15"
  by (simp add: analyzeInterviewPerformance_def Let_def scen_rs scen_rate scen_avg scen_fields
      confidencePart_def confidenceCompletion_def confidenceTiming_def confidenceConsistency_def)

lemma scen_overall:
  "overallScore (analyzeInterviewPerformance (scenarioSession role duration)) = 19"
  by (simp add: overallScore_eq scen_body scen_grammar scen_skills scen_conf Math_round_def)

section \<open>The overall score\<close>

text \<open>
  C1. For every interview session, the \<open>overallScore\<close> that \<open>analyzeInterviewPerformance\<close>
  returns is \<open>Math.round\<close> of the sum of the four sub-scores of the same analysis divided
  by 4: the rounded mean of body language, grammar, skills and confidence.
\<close>

theorem overall_is_rounded_mean:
  "overallScore (analyzeInterviewPerformance d) =
     Math_round ((bodyLanguageScore (analyzeInterviewPerformance d)
                  + grammarScore (analyzeInterviewPerformance d)
                  + skillsScore (analyzeInterviewPerformance d)
                  + confidenceScore (analyzeInterviewPerformance d)) / 4)"
  by (simp add: analyzeInterviewPerformance_def Let_def)

text \<open>In the scenario session the mean of 60, 0, 0 and 15 is 18.75, and the overall score 19.\<close>

theorem overall_is_rounded_mean_witness:
  "overallScore (analyzeInterviewPerformance (scenarioSession ''Software Engineer'' 245000)) = 19"
  using overall_is_rounded_mean [of "scenarioSession ''Software Engineer'' 245000"]
  by (simp add: scen_body scen_grammar scen_skills scen_conf Math_round_def)

section \<open>The device gates and the zero-engagement gate\<close>

text \<open>
  C3. For every interview session with \<open>cameraUsed = false\<close> the analysis has
  \<open>bodyLanguageScore = 0\<close>, and for every session with \<open>microphoneUsed = false\<close> it has
  \<open>grammarScore = 0\<close>.
\<close>

theorem device_gate:
  "(\<not> cameraUsed d \<longrightarrow> bodyLanguageScore (analyzeInterviewPerformance d) = 0)
   \<and> (\<not> microphoneUsed d \<longrightarrow> grammarScore (analyzeInterviewPerformance d) = 0)"
  by (simp add: analyzeInterviewPerformance_def Let_def bodyLanguage_def grammar_def)

theorem device_gate_witness:
  "\<not> cameraUsed mutedSession
   \<and> bodyLanguageScore (analyzeInterviewPerformance mutedSession) = 0
   \<and> \<not> microphoneUsed mutedSession
   \<and> grammarScore (analyzeInterviewPerformance mutedSession) = 0"
proof -
  have h: "\<not> cameraUsed mutedSession" "\<not> microphoneUsed mutedSession"
    by (simp_all add: mutedSession_def)
  with device_gate [of mutedSession] show ?thesis by blast
qed

text \<open>
  C4. For every interview session with \<open>questionsAnswered = 0\<close> and no response texts, the
  analysis has body language, grammar, skills and confidence scores 0 and overall score
  0, whatever the devices, the total number of questions and the timing entries are.
\<close>

theorem zero_engagement:
  assumes "questionsAnswered d = 0" and "responsesOf d = []"
  shows "bodyLanguageScore (analyzeInterviewPerformance d) = 0
       \<and> grammarScore (analyzeInterviewPerformance d) = 0
       \<and> skillsScore (analyzeInterviewPerformance d) = 0
       \<and> confidenceScore (analyzeInterviewPerformance d) = 0
       \<and> overallScore (analyzeInterviewPerformance d) = 0"
  using assms
  by (simp add: analyzeInterviewPerformance_def Let_def bodyLanguage_def bodyLanguageBand_def
      bodyLanguageTiming_def bodyLanguageQuality_def grammar_def skills_def confidencePart_def)

theorem zero_engagement_witness:
  "questionsAnswered idleSession = 0 \<and> responsesOf idleSession = []
   \<and> bodyLanguageScore (analyzeInterviewPerformance idleSession) = 0
   \<and> grammarScore (analyzeInterviewPerformance idleSession) = 0
   \<and> skillsScore (analyzeInterviewPerformance idleSession) = 0
   \<and> confidenceScore (analyzeInterviewPerformance idleSession) = 0
   \<and> overallScore (analyzeInterviewPerformance idleSession) = 0"
proof -
  have h1: "questionsAnswered idleSession = 0" by (simp add: idleSession_def)
  have h2: "responsesOf idleSession = []" by (simp add: idleSession_def responsesOf_def)
  from zero_engagement [OF h1 h2] h1 h2 show ?thesis by blast
qed

section \<open>Sessions without response texts\<close>

text \<open>
  After the base value, the grammar and the skills score are only lowered, scaled down or
  left alone: a score of 0 stays 0 through every step.
\<close>

lemma grammarFluency_zero: "fst sl = 0 \<Longrightarrow> fst (grammarFluency rs sl) = 0"
  by (simp add: grammarFluency_def Let_def)

lemma grammarLength_zero: "fst sl = 0 \<Longrightarrow> fst (grammarLength a sl) = 0"
  by (simp add: grammarLength_def)

lemma grammarCompletion_zero: "fst sl = 0 \<Longrightarrow> fst (grammarCompletion r sl) = 0"
  by (simp add: grammarCompletion_def)

lemma fst_grammarClarity: "fst (grammarClarity ra sl) = fst sl"
  by (simp add: grammarClarity_def)

lemma skillsCompetency_zero: "fst sl = 0 \<Longrightarrow> fst (skillsCompetency k sl) = 0"
  by (simp add: skillsCompetency_def Let_def)

lemma skillsCompletion_zero: "fst sl = 0 \<Longrightarrow> fst (skillsCompletion r sl) = 0"
  by (simp add: skillsCompletion_def)

lemma skillsDepth_zero: "fst sl = 0 \<Longrightarrow> fst (skillsDepth a sl) = 0"
  by (simp add: skillsDepth_def)

lemma fst_skillsQuality: "fst (skillsQuality role k sl) = fst sl"
  by (simp add: skillsQuality_def)

text \<open>
  C10. For every interview session whose responses are absent or empty, with the
  microphone used and at least one question answered, the analysis has \<open>grammarScore = 0\<close>
  and \<open>skillsScore = 0\<close>: both start from the all-zero response analysis, and every later
  step subtracts, scales down or leaves the score.
\<close>

theorem no_responses_no_grammar_no_skills:
  assumes "responses d = None \<or> responses d = Some []"
    and "microphoneUsed d" and "0 < questionsAnswered d"
  shows "grammarScore (analyzeInterviewPerformance d) = 0
       \<and> skillsScore (analyzeInterviewPerformance d) = 0"
proof -
  from assms(1) have rs: "responsesOf d = []" by (simp add: responsesOf_empty)
  have g: "grammarScore (analyzeInterviewPerformance d) = 0"
    using assms(2,3)
    by (simp add: analyzeInterviewPerformance_def Let_def rs grammar_def fst_grammarClarity
        grammarCompletion_zero grammarLength_zero grammarFluency_zero)
  have s: "skillsScore (analyzeInterviewPerformance d) = 0"
    using assms(3)
    by (simp add: analyzeInterviewPerformance_def Let_def rs skills_def fst_skillsQuality
        skillsDepth_zero skillsCompletion_zero skillsCompetency_zero)
  from g s show ?thesis by simp
qed

theorem no_responses_no_grammar_no_skills_witness:
  "responses (scenarioSession ''Data Scientist'' 245000) = None
   \<and> microphoneUsed (scenarioSession ''Data Scientist'' 245000)
   \<and> 0 < questionsAnswered (scenarioSession ''Data Scientist'' 245000)
   \<and> grammarScore (analyzeInterviewPerformance (scenarioSession ''Data Scientist'' 245000)) = 0
   \<and> skillsScore (analyzeInterviewPerformance (scenarioSession ''Data Scientist'' 245000)) = 0"
proof -
  have h1: "responses (scenarioSession ''Data Scientist'' 245000) = None
            \<or> responses (scenarioSession ''Data Scientist'' 245000) = Some []"
    by (simp add: scen_fields)
  have h2: "microphoneUsed (scenarioSession ''Data Scientist'' 245000)"
    by (simp add: scen_fields)
  have h3: "0 < questionsAnswered (scenarioSession ''Data Scientist'' 245000)"
    by (simp add: scen_fields)
  from no_responses_no_grammar_no_skills [OF h1 h2 h3] h2 h3 show ?thesis
    by (simp add: scen_fields)
qed

text \<open>
  C8. The scenario session (7 of 7 questions answered, 35 seconds each, camera and
  microphone on, interview completed, responses not supplied) does not reach 60 on every
  score. For every role and duration its analysis has \<open>bodyLanguageScore = 60\<close>,
  \<open>grammarScore = 0\<close>, \<open>skillsScore = 0\<close>, \<open>confidenceScore = 15\<close> and
  \<open>overallScore = 19\<close>: only body language is at 60.
\<close>

theorem scenario_scores:
  "bodyLanguageScore (analyzeInterviewPerformance (scenarioSession role duration)) = 60
   \<and> grammarScore (analyzeInterviewPerformance (scenarioSession role duration)) = 0
   \<and> skillsScore (analyzeInterviewPerformance (scenarioSession role duration)) = 0
   \<and> confidenceScore (analyzeInterviewPerformance (scenarioSession role duration)) = 15
   \<and> overallScore (analyzeInterviewPerformance (scenarioSession role duration)) = 19"
  by (simp add: scen_body scen_grammar scen_skills scen_conf scen_overall)

theorem scenario_scores_witness:
  "bodyLanguageScore (analyzeInterviewPerformance (scenarioSession ''Product Manager'' 245000)) = 60
   \<and> overallScore (analyzeInterviewPerformance (scenarioSession ''Product Manager'' 245000)) = 19"
  using scenario_scores [of "''Product Manager''" 245000] by blast

text \<open>The specification's expectation, all five scores at 60 or more, fails there.\<close>

theorem scenario_counterexample:
  "\<not> (60 \<le> bodyLanguageScore (analyzeInterviewPerformance (scenarioSession ''Software Engineer'' 245000))
      \<and> 60 \<le> grammarScore (analyzeInterviewPerformance (scenarioSession ''Software Engineer'' 245000))
      \<and> 60 \<le> skillsScore (analyzeInterviewPerformance (scenarioSession ''Software Engineer'' 245000))
      \<and> 60 \<le> confidenceScore (analyzeInterviewPerformance (scenarioSession ''Software Engineer'' 245000))
      \<and> 60 \<le> overallScore (analyzeInterviewPerformance (scenarioSession ''Software Engineer'' 245000)))"
  by (simp add: scen_grammar)

section \<open>Resumes\<close>

text \<open>
  C5. Without a file, and for any role, \<open>analyzeResume\<close> returns the fixed zero-score
  result: \<open>atsScore = 0\<close>, no strengths, and improvements that include the prompt to upload
  a resume in PDF, DOC or DOCX format. The model's function is total, and this branch is
  the first return of the source: nothing is thrown.
\<close>

theorem no_file_resume:
  "atsScore (analyzeResume None role) = 0
   \<and> strengths (analyzeResume None role) = []
   \<and> ''Upload a resume in PDF, DOC, or DOCX format'' \<in> set (improvements (analyzeResume None role))"
  by (simp add: analyzeResume_def)

theorem no_file_resume_witness:
  "atsScore (analyzeResume None ''UX Designer'') = 0
   \<and> strengths (analyzeResume None ''UX Designer'') = []"
  using no_file_resume [of "''UX Designer''"] by blast

text \<open>
  C7. For every file whose extension is not \<open>.pdf\<close>, \<open>.doc\<close> or \<open>.docx\<close>,
  \<open>analyzeResume\<close> returns at once: \<open>atsScore = 0\<close>, the feedback that the format is
  incompatible, no strengths and the two format improvements. Size, name, keywords,
  sections and contact details are not scored (gate and stop).
\<close>

theorem format_gate_stops:
  assumes "fileExtension file \<notin> set allowedTypes"
  shows "analyzeResume (Some file) role =
     \<lparr>feedback = ''Resume format incompatible with ATS systems'', strengths = [],
      improvements = [''CRITICAL: File format rejected by ATS - use PDF, DOC, or DOCX only'',
                      ''ATS systems auto-reject non-standard formats''],
      atsScore = 0\<rparr>"
  using assms by (simp add: analyzeResume_def)

lemma txt_extension: "fileExtension txtResume = ''.txt''"
  by code_simp

lemma txt_stopped: "atsScore (analyzeResume (Some txtResume) ''Software Engineer'') = 0"
  by code_simp

lemma txt_continued:
  "atsScore (scoreFromSize txtResume ''Software Engineer'' (0, formatMessages)) = 18"
  by code_simp

theorem format_gate_stops_witness:
  "fileExtension txtResume \<notin> set allowedTypes
   \<and> atsScore (analyzeResume (Some txtResume) ''Software Engineer'') = 0"
proof -
  have h: "fileExtension txtResume \<notin> set allowedTypes"
    by (simp add: txt_extension allowedTypes_def)
  show ?thesis using format_gate_stops [OF h, of "''Software Engineer''"] h by simp
qed

text \<open>
  Gate and continue would enter the rest of the function with no format points and the
  two format improvements. For \<open>resume.txt\<close> that gives 18 points; the function gives 0.
\<close>

theorem gate_and_continue_counterexample:
  "fileExtension txtResume \<notin> set allowedTypes
   \<and> atsScore (analyzeResume (Some txtResume) ''Software Engineer'') = 0
   \<and> atsScore (scoreFromSize txtResume ''Software Engineer'' (0, formatMessages)) = 18
   \<and> analyzeResume (Some txtResume) ''Software Engineer''
       \<noteq> scoreFromSize txtResume ''Software Engineer'' (0, formatMessages)"
proof -
  have "atsScore (analyzeResume (Some txtResume) ''Software Engineer'')
        \<noteq> atsScore (scoreFromSize txtResume ''Software Engineer'' (0, formatMessages))"
    by (simp add: txt_stopped txt_continued)
  then have "analyzeResume (Some txtResume) ''Software Engineer''
             \<noteq> scoreFromSize txtResume ''Software Engineer'' (0, formatMessages)"
    by auto
  then show ?thesis
    by (simp add: txt_extension txt_stopped txt_continued allowedTypes_def)
qed

section \<open>Completion bands\<close>

text \<open>The score that each completion step returns, as a function of the score it receives.\<close>

lemma fst_bodyLanguageBand:
  "fst (bodyLanguageBand q r l) =
     (if q = 0 then 0 else if js_lt r (3 / 10) then 2 else if js_lt r (5 / 10) then 5
      else if js_lt r (7 / 10) then 12 else if js_lt r (8 / 10) then 25
      else if js_lt r (95 / 100) then 45 else 60)"
  by (simp add: bodyLanguageBand_def)

lemma fst_grammarCompletion:
  "fst (grammarCompletion r sl) =
     (if js_lt r (5 / 10) then max (fst sl * (3 / 10)) 0
      else if js_lt r (7 / 10) then max (fst sl * (6 / 10)) 0 else fst sl)"
  by (simp add: grammarCompletion_def)

lemma fst_skillsCompletion:
  "fst (skillsCompletion r sl) =
     (if js_lt r (4 / 10) then max (fst sl * (2 / 10)) 0
      else if js_lt r (6 / 10) then max (fst sl * (5 / 10)) 0
      else if js_lt r (8 / 10) then max (fst sl * (7 / 10)) 0 else fst sl)"
  by (simp add: skillsCompletion_def)

lemma fst_confidenceCompletion:
  "fst (confidenceCompletion r sl) =
     (if js_lt r (3 / 10) then max (fst sl * (1 / 10)) 0
      else if js_lt r (5 / 10) then max (fst sl * (3 / 10)) 0
      else if js_lt r (7 / 10) then max (fst sl * (6 / 10)) 0 else fst sl)"
  by (simp add: confidenceCompletion_def)

text \<open>
  How the comparisons of the completion rate move when more questions are answered and
  the total stays. With a positive total the rate grows, so a comparison \<open>rate < c\<close> that
  holds after holds before. With a total of 0 the rate is NaN or Infinity and no
  comparison holds. With a negative total both rates are at most 0 and lie below every
  threshold.
\<close>

lemma js_lt_div_cases:
  assumes "0 \<le> q1" "q1 \<le> q2"
  shows "(\<forall>c. js_lt (js_div q2 t) c \<longrightarrow> js_lt (js_div q1 t) c)
       \<or> q1 = 0 \<and> t = 0
       \<or> (\<forall>c>0. js_lt (js_div q1 t) c \<and> js_lt (js_div q2 t) c)"
proof -
  consider "0 < t" | "t = 0" | "t < 0" by linarith
  then show ?thesis
  proof cases
    case 1
    then have "(of_int q1 :: rat) / of_int t \<le> of_int q2 / of_int t"
      using assms by (simp add: divide_right_mono)
    with 1 show ?thesis by (auto simp add: js_div_def)
  next
    case 2
    with assms show ?thesis by (auto simp add: js_div_def)
  next
    case 3
    have "(of_int q / of_int t :: rat) \<le> 0" if "0 \<le> q" for q
      using that 3 by (simp add: divide_nonneg_neg)
    then have "\<forall>c>0. (of_int q1 / of_int t :: rat) < c \<and> (of_int q2 / of_int t :: rat) < c"
      using assms by (meson le_less_trans order_trans)
    with 3 show ?thesis by (auto simp add: js_div_def)
  qed
qed

lemma band_steps_monotone:
  assumes "0 \<le> q1" and "q1 \<le> q2"
  shows "fst (bodyLanguageBand q1 (js_div q1 t) l) \<le> fst (bodyLanguageBand q2 (js_div q2 t) l')"
    and "0 \<le> s \<Longrightarrow> fst (grammarCompletion (js_div q1 t) (s, l))
                    \<le> fst (grammarCompletion (js_div q2 t) (s, l'))"
    and "0 \<le> s \<Longrightarrow> fst (skillsCompletion (js_div q1 t) (s, l))
                    \<le> fst (skillsCompletion (js_div q2 t) (s, l'))"
    and "0 \<le> s \<Longrightarrow> fst (confidenceCompletion (js_div q1 t) (s, l))
                    \<le> fst (confidenceCompletion (js_div q2 t) (s, l'))"
proof -
  define r1 where "r1 = js_div q1 t"
  define r2 where "r2 = js_div q2 t"
  from js_lt_div_cases [OF assms, of t]
  consider (mono) "\<forall>c. js_lt r2 c \<longrightarrow> js_lt r1 c"
    | (nan) "q1 = 0" "t = 0"
    | (low) "\<forall>c>0. js_lt r1 c \<and> js_lt r2 c"
    unfolding r1_def r2_def by blast
  then have "fst (bodyLanguageBand q1 r1 l) \<le> fst (bodyLanguageBand q2 r2 l')
      \<and> (0 \<le> s \<longrightarrow> fst (grammarCompletion r1 (s, l)) \<le> fst (grammarCompletion r2 (s, l')))
      \<and> (0 \<le> s \<longrightarrow> fst (skillsCompletion r1 (s, l)) \<le> fst (skillsCompletion r2 (s, l')))
      \<and> (0 \<le> s \<longrightarrow> fst (confidenceCompletion r1 (s, l)) \<le> fst (confidenceCompletion r2 (s, l')))"
  proof cases
    case mono
    have b: "fst (bodyLanguageBand q1 r1 l) \<le> fst (bodyLanguageBand q2 r2 l')"
      using mono assms by (auto simp add: fst_bodyLanguageBand)
    have g: "fst (grammarCompletion r1 (s, l)) \<le> fst (grammarCompletion r2 (s, l'))" if "0 \<le> s"
      using mono that by (auto simp add: fst_grammarCompletion max_def)
    have k: "fst (skillsCompletion r1 (s, l)) \<le> fst (skillsCompletion r2 (s, l'))" if "0 \<le> s"
      using mono that by (auto simp add: fst_skillsCompletion max_def)
    have f: "fst (confidenceCompletion r1 (s, l)) \<le> fst (confidenceCompletion r2 (s, l'))" if "0 \<le> s"
      using mono that by (auto simp add: fst_confidenceCompletion max_def)
    from b g k f show ?thesis by blast
  next
    case nan
    then have n1: "r1 = NaN" by (simp add: r1_def js_div_def)
    have n2: "r2 = NaN \<or> r2 = PosInf" using nan assms by (auto simp add: r2_def js_div_def)
    have b: "fst (bodyLanguageBand q1 r1 l) \<le> fst (bodyLanguageBand q2 r2 l')"
      using nan n2 by (auto simp add: fst_bodyLanguageBand)
    have g: "fst (grammarCompletion r1 (s, l)) \<le> fst (grammarCompletion r2 (s, l'))"
      using n1 n2 by (auto simp add: fst_grammarCompletion)
    have k: "fst (skillsCompletion r1 (s, l)) \<le> fst (skillsCompletion r2 (s, l'))"
      using n1 n2 by (auto simp add: fst_skillsCompletion)
    have f: "fst (confidenceCompletion r1 (s, l)) \<le> fst (confidenceCompletion r2 (s, l'))"
      using n1 n2 by (auto simp add: fst_confidenceCompletion)
    from b g k f show ?thesis by blast
  next
    case low
    have b: "fst (bodyLanguageBand q1 r1 l) \<le> fst (bodyLanguageBand q2 r2 l')"
      using low assms by (auto simp add: fst_bodyLanguageBand)
    have g: "fst (grammarCompletion r1 (s, l)) \<le> fst (grammarCompletion r2 (s, l'))"
      using low by (simp add: fst_grammarCompletion)
    have k: "fst (skillsCompletion r1 (s, l)) \<le> fst (skillsCompletion r2 (s, l'))"
      using low by (simp add: fst_skillsCompletion)
    have f: "fst (confidenceCompletion r1 (s, l)) \<le> fst (confidenceCompletion r2 (s, l'))"
      using low by (simp add: fst_confidenceCompletion)
    from b g k f show ?thesis by blast
  qed
  then show "fst (bodyLanguageBand q1 (js_div q1 t) l) \<le> fst (bodyLanguageBand q2 (js_div q2 t) l')"
    and "0 \<le> s \<Longrightarrow> fst (grammarCompletion (js_div q1 t) (s, l))
                    \<le> fst (grammarCompletion (js_div q2 t) (s, l'))"
    and "0 \<le> s \<Longrightarrow> fst (skillsCompletion (js_div q1 t) (s, l))
                    \<le> fst (skillsCompletion (js_div q2 t) (s, l'))"
    and "0 \<le> s \<Longrightarrow> fst (confidenceCompletion (js_div q1 t) (s, l))
                    \<le> fst (confidenceCompletion (js_div q2 t) (s, l'))"
    unfolding r1_def r2_def by blast+
qed

text \<open>
  C9. Take two interview sessions that differ only in \<open>questionsAnswered\<close>, the second
  having the larger (non-negative) count. The completion-banded component of each of the
  four scores is then at least as large in the second session: the band value of body
  language, and for grammar, skills and confidence what the completion step makes of any
  non-negative score it receives.
\<close>

theorem completion_band_monotone:
  assumes "0 \<le> questionsAnswered d" and "questionsAnswered d \<le> q"
  shows "fst (bodyLanguageBand (questionsAnswered d) (completionRateOf d) l)
           \<le> fst (bodyLanguageBand q (completionRateOf (d\<lparr>questionsAnswered := q\<rparr>)) l')
       \<and> (\<forall>s\<ge>0. fst (grammarCompletion (completionRateOf d) (s, l))
                  \<le> fst (grammarCompletion (completionRateOf (d\<lparr>questionsAnswered := q\<rparr>)) (s, l')))
       \<and> (\<forall>s\<ge>0. fst (skillsCompletion (completionRateOf d) (s, l))
                  \<le> fst (skillsCompletion (completionRateOf (d\<lparr>questionsAnswered := q\<rparr>)) (s, l')))
       \<and> (\<forall>s\<ge>0. fst (confidenceCompletion (completionRateOf d) (s, l))
                  \<le> fst (confidenceCompletion (completionRateOf (d\<lparr>questionsAnswered := q\<rparr>)) (s, l')))"
  using band_steps_monotone [OF assms, where t = "totalQuestions d"]
  by (simp add: completionRateOf_def)

theorem completion_band_monotone_witness:
  "0 \<le> questionsAnswered lowSession \<and> questionsAnswered lowSession \<le> 7
   \<and> fst (bodyLanguageBand (questionsAnswered lowSession) (completionRateOf lowSession) ([], []))
        \<le> fst (bodyLanguageBand 7 (completionRateOf (lowSession\<lparr>questionsAnswered := 7\<rparr>)) ([], []))
   \<and> fst (grammarCompletion (completionRateOf lowSession) (55, ([], [])))
        \<le> fst (grammarCompletion (completionRateOf (lowSession\<lparr>questionsAnswered := 7\<rparr>)) (55, ([], [])))
   \<and> fst (skillsCompletion (completionRateOf lowSession) (15, ([], [])))
        \<le> fst (skillsCompletion (completionRateOf (lowSession\<lparr>questionsAnswered := 7\<rparr>)) (15, ([], [])))
   \<and> fst (confidenceCompletion (completionRateOf lowSession) (50, ([], [])))
        \<le> fst (confidenceCompletion (completionRateOf (lowSession\<lparr>questionsAnswered := 7\<rparr>)) (50, ([], [])))"
proof -
  have h1: "0 \<le> questionsAnswered lowSession" and h2: "questionsAnswered lowSession \<le> 7"
    by (simp_all add: lowSession_def)
  have p: "(0::rat) \<le> 55" "(0::rat) \<le> 15" "(0::rat) \<le> 50" by simp_all
  from completion_band_monotone [OF h1 h2, of "([], [])" "([], [])"] p h1 h2
  show ?thesis by blast
qed

text \<open>The band values at the two ends: one answer of seven gives 2, seven of seven give 60.\<close>

lemma band_values:
  "fst (bodyLanguageBand 1 (js_div 1 7) l) = 2" "fst (bodyLanguageBand 7 (js_div 7 7) l) = 60"
  by (simp_all add: fst_bodyLanguageBand js_div_def)


section \<open>Ranges of the scores\<close>

subsection \<open>The response analysis stays between 0 and 10\<close>

lemma contentLength_inRange: "inRange10 a \<Longrightarrow> inRange10 (contentLength response a)"
  by (simp add: inRange10_def contentLength_def Let_def)

lemma contentEvidence_inRange: "inRange10 a \<Longrightarrow> inRange10 (contentEvidence response a)"
  by (simp add: inRange10_def contentEvidence_def)

lemma contentSentences_inRange: "inRange10 a \<Longrightarrow> inRange10 (contentSentences response a)"
  by (simp add: inRange10_def contentSentences_def Let_def)

lemma contentConfidence_inRange: "inRange10 a \<Longrightarrow> inRange10 (contentConfidence response a)"
  by (simp add: inRange10_def contentConfidence_def)

lemma contentKeywords_inRange: "inRange10 a \<Longrightarrow> inRange10 (contentKeywords role response a)"
  by (simp add: inRange10_def contentKeywords_def Let_def)

lemma responseContent_inRange:
  assumes "inRange10 a"
  shows "inRange10 (responseContent role a response)"
  using assms
  by (simp add: responseContent_def contentLength_inRange contentEvidence_inRange
      contentSentences_inRange contentConfidence_inRange contentKeywords_inRange)

lemma foldl_responseContent_inRange:
  "inRange10 a \<Longrightarrow> inRange10 (foldl (responseContent role) a rs)"
  by (induction rs arbitrary: a) (simp_all add: responseContent_inRange)

lemma round1_range:
  assumes "0 \<le> x" and "x \<le> 10"
  shows "0 \<le> round1 x \<and> round1 x \<le> 10"
proof -
  have "0 \<le> \<lfloor>x * 10 + 1 / 2\<rfloor>" using assms by (simp add: le_floor_iff)
  moreover have "\<lfloor>x * 10 + 1 / 2\<rfloor> \<le> 100" using assms by (simp add: floor_le_iff)
  ultimately have "0 \<le> (of_int \<lfloor>x * 10 + 1 / 2\<rfloor> :: rat)"
    and "(of_int \<lfloor>x * 10 + 1 / 2\<rfloor> :: rat) \<le> 100"
    by simp_all
  then show ?thesis by (simp add: round1_def Math_round_def)
qed

lemma analyzeResponseContent_inRange: "inRange10 (analyzeResponseContent rs role)"
proof (cases "length rs = 0")
  case True
  then show ?thesis by (simp add: analyzeResponseContent_def inRange10_def)
next
  case False
  have "inRange10 \<lparr>qualityScore = 5, communicationScore = 5, skillsRelevance = 5, clarity = 5,
                   confidence = 5\<rparr>"
    by (simp add: inRange10_def)
  then have "inRange10 (foldl (responseContent role)
      \<lparr>qualityScore = 5, communicationScore = 5, skillsRelevance = 5, clarity = 5,
       confidence = 5\<rparr> rs)"
    by (rule foldl_responseContent_inRange)
  with False show ?thesis
    by (simp add: analyzeResponseContent_def Let_def inRange10_def round1_range)
qed

lemma Math_floor_percentage:
  assumes "0 \<le> x" and "x \<le> 10"
  shows "percentage (Math_floor (x * 10))"
proof -
  have "0 \<le> \<lfloor>x * 10\<rfloor>" using assms by (simp add: le_floor_iff)
  moreover have "\<lfloor>x * 10\<rfloor> \<le> 100" using assms by (simp add: floor_le_iff)
  ultimately have "0 \<le> (of_int \<lfloor>x * 10\<rfloor> :: rat)" and "(of_int \<lfloor>x * 10\<rfloor> :: rat) \<le> 100"
    by simp_all
  then show ?thesis by (simp add: percentage_def Math_floor_def)
qed


subsection \<open>Every step keeps a score between 0 and 100\<close>

lemma bodyLanguageBand_percentage: "percentage (fst (bodyLanguageBand q r l))"
  by (simp add: percentage_def bodyLanguageBand_def)

lemma bodyLanguageBand_60: "fst (bodyLanguageBand q r l) \<le> 60"
  by (simp add: bodyLanguageBand_def)

lemma bodyLanguageTiming_percentage:
  "percentage (fst sl) \<Longrightarrow> percentage (fst (bodyLanguageTiming q ts sl))"
  by (simp add: percentage_def bodyLanguageTiming_def Let_def)

lemma bodyLanguageQuality_percentage:
  "percentage (fst sl) \<Longrightarrow> percentage (fst (bodyLanguageQuality ra sl))"
  by (auto simp add: percentage_def bodyLanguageQuality_def)

lemma bodyLanguage_percentage: "percentage (fst (bodyLanguage d r ra l))"
  by (simp add: bodyLanguage_def bodyLanguageQuality_percentage bodyLanguageTiming_percentage
      bodyLanguageBand_percentage)
     (simp add: percentage_def)

lemma grammarFluency_percentage:
  "percentage (fst sl) \<Longrightarrow> percentage (fst (grammarFluency rs sl))"
  by (simp add: percentage_def grammarFluency_def Let_def)

lemma grammarLength_percentage:
  "percentage (fst sl) \<Longrightarrow> percentage (fst (grammarLength a sl))"
  by (simp add: percentage_def grammarLength_def)

lemma grammarCompletion_percentage:
  "percentage (fst sl) \<Longrightarrow> percentage (fst (grammarCompletion r sl))"
  by (simp add: percentage_def grammarCompletion_def)

lemma grammar_percentage:
  assumes "inRange10 ra"
  shows "percentage (fst (grammar d rs r a ra l))"
proof -
  have "percentage (Math_floor (communicationScore ra * 10))"
    using assms by (simp add: Math_floor_percentage inRange10_def)
  then show ?thesis
    by (simp add: grammar_def fst_grammarClarity grammarCompletion_percentage
        grammarLength_percentage grammarFluency_percentage)
       (simp add: percentage_def)
qed

lemma skillsCompetency_percentage:
  "percentage (fst sl) \<Longrightarrow> percentage (fst (skillsCompetency k sl))"
  by (simp add: percentage_def skillsCompetency_def Let_def)

lemma skillsCompletion_percentage:
  "percentage (fst sl) \<Longrightarrow> percentage (fst (skillsCompletion r sl))"
  by (simp add: percentage_def skillsCompletion_def)

lemma skillsDepth_percentage:
  "percentage (fst sl) \<Longrightarrow> percentage (fst (skillsDepth a sl))"
  by (simp add: percentage_def skillsDepth_def)

lemma skills_percentage:
  assumes "inRange10 ra"
  shows "percentage (fst (skills d rs r a ra l))"
proof -
  have "percentage (Math_floor (skillsRelevance ra * 10))"
    using assms by (simp add: Math_floor_percentage inRange10_def)
  then show ?thesis
    by (simp add: skills_def Let_def fst_skillsQuality skillsDepth_percentage
        skillsCompletion_percentage skillsCompetency_percentage)
       (simp add: percentage_def)
qed

lemma confidenceCompletion_percentage:
  "percentage (fst sl) \<Longrightarrow> percentage (fst (confidenceCompletion r sl))"
  by (simp add: percentage_def confidenceCompletion_def)

lemma confidenceTiming_percentage:
  "percentage (fst sl) \<Longrightarrow> percentage (fst (confidenceTiming a ra sl))"
  by (simp add: percentage_def confidenceTiming_def)

lemma confidenceConsistency_percentage:
  "percentage (fst sl) \<Longrightarrow> percentage (fst (confidenceConsistency c r sl))"
  by (simp add: percentage_def confidenceConsistency_def)

lemma confidencePart_percentage:
  assumes "inRange10 ra"
  shows "percentage (fst (confidencePart d r a ra l))"
proof -
  have "percentage (Math_floor (confidence ra * 10))"
    using assms by (simp add: Math_floor_percentage inRange10_def)
  then show ?thesis
    by (simp add: confidencePart_def confidenceConsistency_percentage
        confidenceTiming_percentage confidenceCompletion_percentage)
       (simp add: percentage_def)
qed

lemma Math_round_mean_percentage:
  assumes "percentage b" "percentage g" "percentage s" "percentage c"
  shows "percentage (Math_round ((b + g + s + c) / 4))"
proof -
  have lo: "0 \<le> (b + g + s + c) / 4" and hi: "(b + g + s + c) / 4 \<le> 100"
    using assms by (simp_all add: percentage_def)
  have "0 \<le> \<lfloor>(b + g + s + c) / 4 + 1 / 2\<rfloor>" using lo by (simp add: le_floor_iff)
  moreover from hi have "(b + g + s + c) / 4 + 1 / 2 < 101" by linarith
  then have "\<lfloor>(b + g + s + c) / 4 + 1 / 2\<rfloor> \<le> 100" by (simp add: floor_le_iff)
  ultimately have "0 \<le> (of_int \<lfloor>(b + g + s + c) / 4 + 1 / 2\<rfloor> :: rat)"
    and "(of_int \<lfloor>(b + g + s + c) / 4 + 1 / 2\<rfloor> :: rat) \<le> 100"
    by simp_all
  then show ?thesis by (simp add: percentage_def Math_round_def)
qed

text \<open>
  All five scores of an interview analysis lie between 0 and 100, for every session; the
  overall score is a whole number.
\<close>

lemma interview_scores_in_range:
  "percentage (bodyLanguageScore (analyzeInterviewPerformance d))"
  "percentage (grammarScore (analyzeInterviewPerformance d))"
  "percentage (skillsScore (analyzeInterviewPerformance d))"
  "percentage (confidenceScore (analyzeInterviewPerformance d))"
  "percentage (overallScore (analyzeInterviewPerformance d))"
  "overallScore (analyzeInterviewPerformance d) \<in> \<int>"
proof -
  show b: "percentage (bodyLanguageScore (analyzeInterviewPerformance d))"
    by (simp add: analyzeInterviewPerformance_def Let_def bodyLanguage_percentage)
  show g: "percentage (grammarScore (analyzeInterviewPerformance d))"
    by (simp add: analyzeInterviewPerformance_def Let_def grammar_percentage
        analyzeResponseContent_inRange)
  show s: "percentage (skillsScore (analyzeInterviewPerformance d))"
    by (simp add: analyzeInterviewPerformance_def Let_def skills_percentage
        analyzeResponseContent_inRange)
  show c: "percentage (confidenceScore (analyzeInterviewPerformance d))"
    by (simp add: analyzeInterviewPerformance_def Let_def confidencePart_percentage
        analyzeResponseContent_inRange)
  show "percentage (overallScore (analyzeInterviewPerformance d))"
    using b g s c by (simp add: overallScore_eq Math_round_mean_percentage)
  show "overallScore (analyzeInterviewPerformance d) \<in> \<int>"
    by (simp add: overallScore_eq Math_round_def)
qed

subsection \<open>The resume score\<close>

lemma resumeSize_nonneg: "0 \<le> fst sl \<Longrightarrow> 0 \<le> fst (resumeSize file sl)"
  by (simp add: resumeSize_def)

lemma resumeName_nonneg: "0 \<le> fst sl \<Longrightarrow> 0 \<le> fst (resumeName file sl)"
  by (simp add: resumeName_def Let_def)

lemma resumeRequired_nonneg: "0 \<le> fst sl \<Longrightarrow> 0 \<le> fst (resumeRequired file role sl)"
  by (simp add: resumeRequired_def Let_def)

lemma resumePreferred_nonneg: "0 \<le> fst sl \<Longrightarrow> 0 \<le> fst (resumePreferred file role sl)"
  by (simp add: resumePreferred_def Let_def)

lemma resumeExclusions_nonneg: "0 \<le> fst sl \<Longrightarrow> 0 \<le> fst (resumeExclusions file role sl)"
  by (simp add: resumeExclusions_def Let_def)

lemma resumeSections_nonneg: "0 \<le> fst sl \<Longrightarrow> 0 \<le> fst (resumeSections file sl)"
  by (simp add: resumeSections_def Let_def)

lemma resumeLength_nonneg: "0 \<le> fst sl \<Longrightarrow> 0 \<le> fst (resumeLength file sl)"
  by (simp add: resumeLength_def Let_def)

lemma resumeContact_nonneg: "0 \<le> fst sl \<Longrightarrow> 0 \<le> fst (resumeContact file sl)"
  by (simp add: resumeContact_def Let_def)

lemma scoreContent_range:
  assumes "0 \<le> fst sl"
  shows "0 \<le> atsScore (scoreContent file role sl) \<and> atsScore (scoreContent file role sl) \<le> 85"
  using assms
  by (simp add: scoreContent_def Let_def resumeContact_nonneg resumeLength_nonneg
      resumeSections_nonneg resumeExclusions_nonneg resumePreferred_nonneg
      resumeRequired_nonneg resumeName_nonneg resumeSize_nonneg)

text \<open>The ATS score lies between 0 and 85, for every file and role and without a file.\<close>

lemma atsScore_in_range:
  "0 \<le> atsScore (analyzeResume f role) \<and> atsScore (analyzeResume f role) \<le> 85"
proof (cases f)
  case None
  then show ?thesis by (simp add: analyzeResume_def)
next
  case (Some fl)
  have "0 \<le> atsScore (scoreFromSize fl role (3, strength ''Acceptable file format'' ([], [])))
        \<and> atsScore (scoreFromSize fl role (3, strength ''Acceptable file format'' ([], []))) \<le> 85"
    using scoreContent_range [of "(3, strength ''Acceptable file format'' ([], []))" fl role]
    by (simp add: scoreFromSize_def)
  with Some show ?thesis by (simp add: analyzeResume_def)
qed



section \<open>Whole numbers\<close>

text \<open>
  The base values are whole numbers (\<open>Math.floor\<close>), and so is the overall score
  (\<open>Math.round\<close>). The completion steps multiply by 0.3, 0.5 or 0.7 and do not round.
\<close>

lemma low_grammar: "grammarScore (analyzeInterviewPerformance lowSession) = 33 / 2"
  by code_simp

lemma low_skills:
  "skillsScore (analyzeInterviewPerformance (lowSession\<lparr>questionsAnswered := 3\<rparr>)) = 15 / 2"
  by code_simp

lemma half_not_whole: "(33 / 2 :: rat) \<notin> \<int>"
proof
  assume "(33 / 2 :: rat) \<in> \<int>"
  then have "of_int \<lfloor>33 / 2 :: rat\<rfloor> = (33 / 2 :: rat)" by simp
  then show False by simp
qed

text \<open>
  C2. The ATS score and the five interview scores lie between 0 and 100
  (\<open>atsScore_in_range\<close>, \<open>interview_scores_in_range\<close>), but a sub-score need not be a
  whole number: with one question of seven answered and the response \<open>A. B. C.\<close> the
  grammar score is 55 times 0.3, that is 16.5.
\<close>

theorem fractional_grammar_score:
  "grammarScore (analyzeInterviewPerformance lowSession) = 33 / 2
   \<and> grammarScore (analyzeInterviewPerformance lowSession) \<notin> \<int>
   \<and> 0 \<le> grammarScore (analyzeInterviewPerformance lowSession)
   \<and> grammarScore (analyzeInterviewPerformance lowSession) \<le> 100"
  by (simp add: low_grammar half_not_whole)

section \<open>A total of zero questions\<close>

lemma zero_rate: "completionRateOf zeroTotal = PosInf"
  by (simp add: completionRateOf_def zeroTotal_def js_div_def)

lemma zero_rate_idle: "completionRateOf (zeroTotal\<lparr>questionsAnswered := 0\<rparr>) = NaN"
  by (simp add: completionRateOf_def zeroTotal_def js_div_def)

lemma zero_guarded: "guardedCompletionRate zeroTotal = Fin 0"
  by (simp add: guardedCompletionRate_def zeroTotal_def)

lemma zero_body: "bodyLanguageScore (analyzeInterviewPerformance zeroTotal) = 60"
  by code_simp

lemma zero_body_guarded:
  "fst (bodyLanguage zeroTotal (guardedCompletionRate zeroTotal)
         (analyzeResponseContent (responsesOf zeroTotal) (selectedRole zeroTotal)) ([], [])) = 2"
  by code_simp

lemma zero_feedback:
  "includes_str (feedback (analyzeInterviewPerformance zeroTotal)) ''Infinity% completion''"
  by code_simp

text \<open>
  C6. The average time of an empty timing list is 0 (\<open>average_Nil\<close>), but the division by
  \<open>totalQuestions\<close> has no guard. With three answers and a total of 0 the completion rate
  is Infinity, not 0: no band comparison holds, the body language score is the 60 of the
  top band where a rate of 0 gives 2, and the feedback reads \<open>Infinity% completion\<close>.
  With no answer and a total of 0 the rate is NaN.
\<close>

theorem zero_total_unguarded:
  "completionRateOf zeroTotal = PosInf
   \<and> completionRateOf (zeroTotal\<lparr>questionsAnswered := 0\<rparr>) = NaN
   \<and> guardedCompletionRate zeroTotal = Fin 0
   \<and> bodyLanguageScore (analyzeInterviewPerformance zeroTotal) = 60
   \<and> fst (bodyLanguage zeroTotal (guardedCompletionRate zeroTotal)
            (analyzeResponseContent (responsesOf zeroTotal) (selectedRole zeroTotal)) ([], [])) = 2
   \<and> includes_str (feedback (analyzeInterviewPerformance zeroTotal)) ''Infinity% completion''"
  using zero_rate zero_rate_idle zero_guarded zero_body zero_body_guarded zero_feedback
  by blast

end
